theory Spec2Isabelle
  imports Main
begin

section \<open>Data model\<close>

text \<open>
  The message posted to the callback (class \<open>Msg\<close>). Field \<open>id\<close> is called
  \<open>msg_id\<close> and field \<open>type\<close> is called \<open>msg_type\<close> here. Python strings are
  modelled as byte strings in UTF-8: every character the program tests for (comma,
  double quote, carriage return, line feed) is ASCII, and no byte of a multi-byte
  UTF-8 sequence is ASCII.
\<close>

record Msg =
  msg_id :: int
  ts :: int
  sign :: string
  msg_type :: int
  xml :: string
  sender :: string
  roomid :: string
  content :: string
  thumb :: string
  extra :: string
  is_at :: bool
  is_self :: bool
  is_group :: bool

text \<open>Class \<open>Config\<close>: the values read from \<open>config.json\<close>, with the source's field names.\<close>

record Config =
  accepted_types :: "int set"
  chatroom_id_to_name :: "string \<rightharpoonup> string"
  log_level :: string
  host :: string
  port :: int
  file_encoding :: string
  file_write_mode :: string
  date_format :: string

text \<open>A reading of \<open>datetime.now()\<close>: local calendar date and time of day.\<close>

record datetime =
  year :: nat
  month :: nat
  day :: nat
  hour :: nat
  minute :: nat
  second :: nat
  microsecond :: nat

text \<open>
  An element of the tree built by \<open>xml.etree.ElementTree\<close>: tag, text (attribute
  \<open>text\<close>, called \<open>elem_text\<close> here; Python \<open>None\<close> is \<open>None\<close>) and children in
  document order.
\<close>

datatype element = Element (tag: string) (elem_text: "string option") (children: "element list")

text \<open>
  Exceptions, carrying \<open>str(e)\<close>. \<open>FileNotFoundError\<close>, \<open>csv.Error\<close> and
  \<open>ET.ParseError\<close> are the classes the source names in an \<open>except\<close> clause; every
  other exception is an \<open>OtherException\<close>.
\<close>

datatype exn =
    FileNotFoundError string
  | CsvError string
  | ParseError string
  | OtherException string

fun exn_str :: "exn \<Rightarrow> string" where
  "exn_str (FileNotFoundError s) = s"
| "exn_str (CsvError s) = s"
| "exn_str (ParseError s) = s"
| "exn_str (OtherException s) = s"

text \<open>
  What the program does to its environment, in the order it does it: reading the
  clock, testing a path, creating a directory, calling the title extraction, opening a
  file, writing a row through the csv writer, logging, printing.
\<close>

datatype event =
    EvNow
  | EvExists string
  | EvMakedirs string
  | EvParseXml string
  | EvOpen string string string
  | EvWriterow string "string list"
  | EvLog string string
  | EvPrint string datetime string int string

text \<open>
  The environment. \<open>dirs\<close> are the directories that exist, \<open>files\<close> maps a path to
  the text of the file there, \<open>clock\<close> gives the successive readings of the wall clock
  and \<open>ticks\<close> counts the readings taken, \<open>fromstring\<close> is \<open>ET.fromstring\<close> of the
  standard library (the root element, or the exception it raises), \<open>faults\<close> says
  which operation fails with which exception given the operations attempted so far, and
  \<open>trace\<close> lists the operations attempted so far.
\<close>

record world =
  dirs :: "string set"
  files :: "string \<rightharpoonup> string"
  clock :: "nat \<Rightarrow> datetime"
  ticks :: nat
  fromstring :: "string \<Rightarrow> exn + element"
  faults :: "event list \<Rightarrow> event \<Rightarrow> exn option"
  trace :: "event list"

type_synonym 'a io = "world \<Rightarrow> (exn + 'a) \<times> world"

definition return_io :: "'a \<Rightarrow> 'a io" where
  "return_io x w = (Inr x, w)"

definition bind_io :: "'a io \<Rightarrow> ('a \<Rightarrow> 'b io) \<Rightarrow> 'b io" where
  "bind_io f g w = (case f w of (Inl e, w') \<Rightarrow> (Inl e, w') | (Inr x, w') \<Rightarrow> g x w')"

text \<open>An operation is attempted: it enters the trace, and it fails if the environment says so.\<close>

definition attempt :: "event \<Rightarrow> unit io" where
  "attempt ev w =
     (case faults w (trace w) ev of
        Some e \<Rightarrow> (Inl e, w\<lparr>trace := trace w @ [ev]\<rparr>)
      | None \<Rightarrow> (Inr (), w\<lparr>trace := trace w @ [ev]\<rparr>))"

section \<open>Strings: decimal numbers and \<open>strftime\<close>\<close>

definition digit :: "nat \<Rightarrow> char" where
  "digit d = ''0123456789'' ! (d mod 10)"

fun str_nat :: "nat \<Rightarrow> string" where
  "str_nat n = (if n < 10 then [digit n] else str_nat (n div 10) @ [digit n])"

declare str_nat.simps [simp del]

text \<open>\<open>str(i)\<close> for a Python integer.\<close>

definition str_int :: "int \<Rightarrow> string" where
  "str_int i = (if i < 0 then CHR ''-'' # str_nat (nat (- i)) else str_nat (nat i))"

definition zfill :: "nat \<Rightarrow> string \<Rightarrow> string" where
  "zfill k s = replicate (k - length s) CHR ''0'' @ s"

text \<open>
  \<open>strftime('%Y%m%d')\<close> and \<open>strftime('%Y%m%d%H')\<close>: the year in four digits (the
  years of \<open>datetime.now()\<close> have four), month, day and hour in two.
\<close>

definition strftime_Ymd :: "datetime \<Rightarrow> string" where
  "strftime_Ymd t = zfill 4 (str_nat (year t)) @ zfill 2 (str_nat (month t)) @ zfill 2 (str_nat (day t))"

definition strftime_YmdH :: "datetime \<Rightarrow> string" where
  "strftime_YmdH t = strftime_Ymd t @ zfill 2 (str_nat (hour t))"

text \<open>\<open>pat in s\<close> for strings.\<close>

fun contains :: "string \<Rightarrow> string \<Rightarrow> bool" where
  "contains [] pat = (pat = [])"
| "contains (c # cs) pat = (take (length pat) (c # cs) = pat \<or> contains cs pat)"

section \<open>The csv writer\<close>

text \<open>
  \<open>csv.writer(file).writerow(row)\<close> with the default dialect of the standard library:
  comma as delimiter, double quote as quote character, doubled inside a quoted field,
  minimal quoting (a field is quoted exactly when it holds the delimiter, the quote
  character, a carriage return or a line feed), carriage return and line feed as line
  terminator, and a row of one empty field written as two quote characters.
\<close>

abbreviation comma :: char where "comma \<equiv> CHR 0x2C"
abbreviation dquote :: char where "dquote \<equiv> CHR 0x22"
abbreviation cr :: char where "cr \<equiv> CHR 0x0D"
abbreviation lf :: char where "lf \<equiv> CHR 0x0A"

definition special :: "char \<Rightarrow> bool" where
  "special c = (c = comma \<or> c = dquote \<or> c = cr \<or> c = lf)"

fun escape_quotes :: "string \<Rightarrow> string" where
  "escape_quotes [] = []"
| "escape_quotes (c # cs) = (if c = dquote then dquote # dquote # escape_quotes cs else c # escape_quotes cs)"

definition quote_field :: "string \<Rightarrow> string" where
  "quote_field s = (if list_ex special s then dquote # escape_quotes s @ [dquote] else s)"

fun join_fields :: "string list \<Rightarrow> string" where
  "join_fields [] = []"
| "join_fields [f] = quote_field f"
| "join_fields (f # g # fs) = quote_field f @ comma # join_fields (g # fs)"

definition writerow_text :: "string list \<Rightarrow> string" where
  "writerow_text row = (if row = [[]] then [dquote, dquote] else join_fields row) @ [cr, lf]"

section \<open>Operations on the environment\<close>

text \<open>\<open>datetime.now()\<close>: the next reading of the clock.\<close>

definition datetime_now :: "datetime io" where
  "datetime_now w = (Inr (clock w (ticks w)), w\<lparr>ticks := Suc (ticks w), trace := trace w @ [EvNow]\<rparr>)"

text \<open>\<open>os.path.exists\<close> on a path that ends in a slash, and \<open>os.makedirs\<close>.\<close>

definition os_path_exists :: "string \<Rightarrow> bool io" where
  "os_path_exists p w = (Inr (p \<in> dirs w), w\<lparr>trace := trace w @ [EvExists p]\<rparr>)"

definition os_makedirs :: "string \<Rightarrow> unit io" where
  "os_makedirs p = bind_io (attempt (EvMakedirs p)) (\<lambda>_ w. (Inr (), w\<lparr>dirs := insert p (dirs w)\<rparr>))"

text \<open>
  \<open>aiofiles.open(file_name, mode, newline='', encoding=...)\<close>. Mode \<open>a\<close> creates the
  file when it is absent and writes at its end; mode \<open>w\<close> empties it. The other modes
  of Python are outside this model: opening with one of them is reported as an exception
  here, and no theorem below speaks about them. Rows reach the file when they are
  written (the buffer of the file object is not modelled).
\<close>

definition file_text :: "string \<Rightarrow> world \<Rightarrow> string" where
  "file_text p w = (case files w p of None \<Rightarrow> [] | Some t \<Rightarrow> t)"

definition aiofiles_open :: "string \<Rightarrow> string \<Rightarrow> string \<Rightarrow> unit io" where
  "aiofiles_open p mode encoding =
     bind_io (attempt (EvOpen p mode encoding)) (\<lambda>_ w.
       if mode = ''a'' then (Inr (), w\<lparr>files := (files w)(p \<mapsto> file_text p w)\<rparr>)
       else if mode = ''w'' then (Inr (), w\<lparr>files := (files w)(p \<mapsto> [])\<rparr>)
       else (Inl (OtherException ''file mode outside the model''), w))"

text \<open>\<open>file.tell()\<close> on the file just opened: in both modes the position is the end of the text.\<close>

definition file_tell :: "string \<Rightarrow> world \<Rightarrow> nat" where
  "file_tell p w = length (file_text p w)"

definition writer_writerow :: "string \<Rightarrow> string list \<Rightarrow> unit io" where
  "writer_writerow p row =
     bind_io (attempt (EvWriterow p row)) (\<lambda>_ w.
       (Inr (), w\<lparr>files := (files w)(p \<mapsto> file_text p w @ writerow_text row)\<rparr>))"

section \<open>The program\<close>

text \<open>\<open>FileManager.write_to_csv\<close>.\<close>

definition write_to_csv :: "Config \<Rightarrow> string \<Rightarrow> string list \<Rightarrow> string list \<Rightarrow> unit io" where
  "write_to_csv config file_name header data =
     bind_io (aiofiles_open file_name (file_write_mode config) (file_encoding config)) (\<lambda>_.
     bind_io (\<lambda>w. if file_tell file_name w = 0 then writer_writerow file_name header w
                   else return_io () w) (\<lambda>_.
     writer_writerow file_name data))"

text \<open>
  \<open>root.find('.//title')\<close>: \<open>iter\<close> lists an element and its descendants in document
  order, and the path \<open>.//title\<close> selects, among the descendants of the root (the root
  itself is not one of them), the first whose tag is \<open>title\<close>.
\<close>

fun iter :: "element \<Rightarrow> element list" where
  "iter (Element t x cs) = Element t x cs # concat (map iter cs)"

definition find_descendant :: "string \<Rightarrow> element \<Rightarrow> element option" where
  "find_descendant tg root = List.find (\<lambda>e. tag e = tg) (concat (map iter (children root)))"

text \<open>The two literals of \<open>parse_xml_content\<close> and the one of \<open>msg_cb\<close>, in UTF-8.\<close>

definition untitled :: string where
  "untitled = [CHR 0xE6, CHR 0x97, CHR 0xA0, CHR 0xE6, CHR 0xA0, CHR 0x87, CHR 0xE9, CHR 0xA2, CHR 0x98]"

definition xml_parse_error :: string where
  "xml_parse_error = ''XML'' @ [CHR 0xE8, CHR 0xA7, CHR 0xA3, CHR 0xE6, CHR 0x9E, CHR 0x90,
     CHR 0xE9, CHR 0x94, CHR 0x99, CHR 0xE8, CHR 0xAF, CHR 0xAF]"

definition success_message :: string where
  "success_message = [CHR 0xE6, CHR 0x88, CHR 0x90, CHR 0xE5, CHR 0x8A, CHR 0x9F]"

text \<open>
  \<open>parse_xml_content\<close>. The result is the text of the element found, which is
  \<open>None\<close> when that element has no text. Only \<open>ET.ParseError\<close> is caught.
\<close>

definition parse_xml_content :: "string \<Rightarrow> string option io" where
  "parse_xml_content s w =
     (let w1 = w\<lparr>trace := trace w @ [EvParseXml s]\<rparr> in
      case fromstring w s of
        Inl (ParseError d) \<Rightarrow> (Inr (Some xml_parse_error), w1)
      | Inl e \<Rightarrow> (Inl e, w1)
      | Inr root \<Rightarrow>
          (case find_descendant ''title'' root of
             Some title_element \<Rightarrow> (Inr (elem_text title_element), w1)
           | None \<Rightarrow> (Inr (Some untitled), w1)))"

text \<open>
  \<open>log_and_print\<close>: the logging call (which raises when \<open>config.log_level\<close> names no
  level of the logging module: the environment decides), then, for a message that
  contains \<open>Message saved\<close>, a second reading of the clock and the print.
\<close>

definition log_and_print :: "Config \<Rightarrow> string \<Rightarrow> string \<Rightarrow> Msg \<Rightarrow> unit io" where
  "log_and_print config log_message room_name message =
     bind_io (attempt (EvLog (log_level config) log_message)) (\<lambda>_.
       if contains log_message ''Message saved''
       then bind_io datetime_now (\<lambda>t.
              attempt (EvPrint (log_level config) t room_name (msg_type message) (content message)))
       else return_io ())"

text \<open>Lines 83 and 88 of the source: the two f-strings.\<close>

definition folder_path :: "string \<Rightarrow> datetime \<Rightarrow> string" where
  "folder_path room_name current_time = ''./'' @ room_name @ ''/'' @ strftime_Ymd current_time @ ''/''"

definition file_name :: "string \<Rightarrow> datetime \<Rightarrow> string" where
  "file_name room_name current_time =
     folder_path room_name current_time @ ''messages_'' @ strftime_YmdH current_time @ ''.csv''"

text \<open>Lines 90 to 100: header, title and data row.\<close>

definition header :: "Msg \<Rightarrow> string list" where
  "header message =
     (if \<not> (msg_type message = 49 \<and> is_group message)
      then [''type'', ''sender'', ''content'', ''extra'']
      else [''type'', ''sender'', ''title'', ''content'', ''extra''])"

definition data :: "Msg \<Rightarrow> string option \<Rightarrow> string list" where
  "data message title_content =
     [str_int (msg_type message), sender message,
      (case title_content of
         None \<Rightarrow> content message
       | Some t \<Rightarrow> if t \<noteq> [] then t else content message),
      extra message]"

text \<open>The body of the \<open>try\<close> of \<open>save_message_to_csv\<close>, after the test of line 78.\<close>

definition save_body :: "Config \<Rightarrow> Msg \<Rightarrow> string \<Rightarrow> unit io" where
  "save_body config message room_name =
     bind_io datetime_now (\<lambda>current_time.
     bind_io (os_path_exists (folder_path room_name current_time)) (\<lambda>ex.
     bind_io (if \<not> ex then os_makedirs (folder_path room_name current_time) else return_io ()) (\<lambda>_.
     bind_io (if msg_type message = 49 \<and> is_group message
              then parse_xml_content (content message) else return_io (Some [])) (\<lambda>title_content.
     bind_io (write_to_csv config (file_name room_name current_time) (header message)
                (data message title_content)) (\<lambda>_.
     log_and_print config ''[INFO] Message saved'' room_name message)))))"

text \<open>
  The three \<open>except\<close> clauses of \<open>save_message_to_csv\<close> (lines 105 to 110): each
  logs and returns. An exception raised inside a clause leaves the function.
\<close>

definition try_except :: "'a io \<Rightarrow> (exn \<Rightarrow> 'a io) \<Rightarrow> 'a io" where
  "try_except f h w = (case f w of (Inl e, w') \<Rightarrow> h e w' | (Inr x, w') \<Rightarrow> (Inr x, w'))"

definition except_clauses :: "Config \<Rightarrow> string \<Rightarrow> Msg \<Rightarrow> exn \<Rightarrow> unit io" where
  "except_clauses config room_name message e =
     (case e of
        FileNotFoundError d \<Rightarrow> log_and_print config ''[ERROR] File not found'' room_name message
      | CsvError d \<Rightarrow> log_and_print config (''[ERROR] CSV error: '' @ d) room_name message
      | _ \<Rightarrow> log_and_print config (''[ERROR] An error occurred: '' @ exn_str e) room_name message)"

text \<open>\<open>save_message_to_csv\<close>: the test of line 78, then the body under the \<open>except\<close> clauses.\<close>

definition save_message_to_csv :: "Config \<Rightarrow> Msg \<Rightarrow> unit io" where
  "save_message_to_csv config message w =
     (if msg_type message \<notin> accepted_types config then (Inr (), w)
      else case chatroom_id_to_name config (roomid message) of
        None \<Rightarrow> (Inr (), w)
      | Some room_name \<Rightarrow>
          try_except (save_body config message room_name)
            (except_clauses config room_name message) w)"

text \<open>\<open>msg_cb\<close>: the acknowledgement, or the HTTP exception with status and detail.\<close>

datatype response = Body int string | HTTPException int string

definition msg_cb :: "Config \<Rightarrow> Msg \<Rightarrow> world \<Rightarrow> response \<times> world" where
  "msg_cb config msg w =
     (case save_message_to_csv config msg w of
        (Inl e, w') \<Rightarrow> (HTTPException 500 (exn_str e), w')
      | (Inr u, w') \<Rightarrow> (Body 0 success_message, w'))"

section \<open>Notions used to state the properties\<close>

text \<open>The operations attempted between an earlier environment and a later one.\<close>

definition new_events :: "world \<Rightarrow> world \<Rightarrow> event list" where
  "new_events w w' = drop (length (trace w)) (trace w')"

text \<open>An environment in which no operation fails.\<close>

definition no_fault :: "event list \<Rightarrow> event \<Rightarrow> exn option" where
  "no_fault h ev = None"

text \<open>Several \<open>write_to_csv\<close> calls in a row on one file, stopping at the first exception.\<close>

fun write_all :: "Config \<Rightarrow> string \<Rightarrow> string list \<Rightarrow> string list list \<Rightarrow> unit io" where
  "write_all config f h [] = return_io ()"
| "write_all config f h (r # rs) = bind_io (write_to_csv config f h r) (\<lambda>_. write_all config f h rs)"

text \<open>
  Modelled from the spec: the program never reads its files back, so the parser of
  the round trip is the one the specification names, delimited text with the comma as
  delimiter and the standard quoting rules. It reads character by character as
  \<open>csv.reader\<close> does with the default dialect: a field that starts with a quote
  character runs to the closing quote, a doubled quote inside it stands for one quote
  character, a comma ends a field, a carriage return, a line feed or both end a record,
  and an empty line is an empty record.
\<close>

datatype rmode = StartField | InField | InQuoted | QuoteInQuoted | AfterCR

type_synonym rstate = "rmode \<times> string list \<times> string \<times> string list list"

definition start_field :: "string list \<Rightarrow> string list list \<Rightarrow> char \<Rightarrow> rstate" where
  "start_field rec rows c =
     (if c = cr then (AfterCR, [], [], rows @ [if rec = [] then [] else rec @ [[]]])
      else if c = lf then (StartField, [], [], rows @ [if rec = [] then [] else rec @ [[]]])
      else if c = dquote then (InQuoted, rec, [], rows)
      else if c = comma then (StartField, rec @ [[]], [], rows)
      else (InField, rec, [c], rows))"

fun step :: "rstate \<Rightarrow> char \<Rightarrow> rstate" where
  "step (StartField, rec, fld, rows) c = start_field rec rows c"
| "step (AfterCR, rec, fld, rows) c =
     (if c = lf then (StartField, [], [], rows) else start_field [] rows c)"
| "step (InField, rec, fld, rows) c =
     (if c = cr then (AfterCR, [], [], rows @ [rec @ [fld]])
      else if c = lf then (StartField, [], [], rows @ [rec @ [fld]])
      else if c = comma then (StartField, rec @ [fld], [], rows)
      else (InField, rec, fld @ [c], rows))"
| "step (InQuoted, rec, fld, rows) c =
     (if c = dquote then (QuoteInQuoted, rec, fld, rows) else (InQuoted, rec, fld @ [c], rows))"
| "step (QuoteInQuoted, rec, fld, rows) c =
     (if c = dquote then (InQuoted, rec, fld @ [c], rows)
      else if c = comma then (StartField, rec @ [fld], [], rows)
      else if c = cr then (AfterCR, [], [], rows @ [rec @ [fld]])
      else if c = lf then (StartField, [], [], rows @ [rec @ [fld]])
      else (InField, rec, fld @ [c], rows))"

fun finish :: "rstate \<Rightarrow> string list list" where
  "finish (StartField, rec, fld, rows) = (if rec = [] then rows else rows @ [rec @ [fld]])"
| "finish (AfterCR, rec, fld, rows) = rows"
| "finish (m, rec, fld, rows) = rows @ [rec @ [fld]]"

definition csv_reader :: "string \<Rightarrow> string list list" where
  "csv_reader s = finish (foldl step (StartField, [], [], []) s)"

text \<open>The rows handed to the csv writer are the \<open>EvWriterow\<close> events.\<close>

fun is_writerow :: "event \<Rightarrow> bool" where
  "is_writerow (EvWriterow p r) = True"
| "is_writerow ev = False"

text \<open>
  \<open>emits P f w\<close>: running \<open>f\<close> from \<open>w\<close> only adds operations to the trace, and each
  operation added satisfies \<open>P\<close>.
\<close>

definition emits :: "(event \<Rightarrow> bool) \<Rightarrow> 'a io \<Rightarrow> world \<Rightarrow> bool" where
  "emits P f w = (\<exists>es. trace (snd (f w)) = trace w @ es \<and> list_all P es)"

text \<open>An operation on a path uses the directory \<open>d\<close> or the file \<open>f\<close>.\<close>

fun path_event :: "string \<Rightarrow> string \<Rightarrow> event \<Rightarrow> bool" where
  "path_event d f (EvExists p) = (p = d)"
| "path_event d f (EvMakedirs p) = (p = d)"
| "path_event d f (EvOpen p mode encoding) = (p = f)"
| "path_event d f (EvWriterow p r) = (p = f)"
| "path_event d f ev = True"

text \<open>
  An operation is not a call of the title extraction, and if it writes a row, the row
  is the four-field header or the four fields of the message.
\<close>

fun plain_row_event :: "Msg \<Rightarrow> event \<Rightarrow> bool" where
  "plain_row_event m (EvParseXml s) = False"
| "plain_row_event m (EvWriterow p r) =
     (r = [''type'', ''sender'', ''content'', ''extra''] \<or>
      r = [str_int (msg_type m), sender m, content m, extra m])"
| "plain_row_event m ev = True"

text \<open>
  The environment after a message with room name \<open>room\<close> and extracted title \<open>tc\<close> has
  been saved from \<open>w\<close> in append mode without a failure.
\<close>

definition saved :: "Config \<Rightarrow> Msg \<Rightarrow> string \<Rightarrow> string option \<Rightarrow> world \<Rightarrow> world" where
  "saved c m room tc w = w\<lparr>ticks := Suc (Suc (ticks w)),
       dirs := insert (folder_path room (clock w (ticks w))) (dirs w),
       files := (files w)(file_name room (clock w (ticks w)) \<mapsto>
          file_text (file_name room (clock w (ticks w))) w @
          (if file_text (file_name room (clock w (ticks w))) w = [] then writerow_text (header m) else []) @
          writerow_text (data m tc)),
       trace := trace w @ [EvNow, EvExists (folder_path room (clock w (ticks w)))] @
          (if folder_path room (clock w (ticks w)) \<in> dirs w then []
           else [EvMakedirs (folder_path room (clock w (ticks w)))]) @
          (if msg_type m = 49 \<and> is_group m then [EvParseXml (content m)] else []) @
          [EvOpen (file_name room (clock w (ticks w))) ''a'' (file_encoding c)] @
          (if file_text (file_name room (clock w (ticks w))) w = []
           then [EvWriterow (file_name room (clock w (ticks w))) (header m)] else []) @
          [EvWriterow (file_name room (clock w (ticks w))) (data m tc),
           EvLog (log_level c) ''[INFO] Message saved'', EvNow,
           EvPrint (log_level c) (clock w (Suc (ticks w))) room (msg_type m) (content m)]\<rparr>"

section \<open>A concrete configuration, message and environment\<close>

definition sample_config :: Config where
  "sample_config =
     \<lparr>accepted_types = {1, 49}, chatroom_id_to_name = [''room1@chatroom'' \<mapsto> ''Team A''],
      log_level = ''INFO'', host = ''127.0.0.1'', port = 8001, file_encoding = ''utf-8-sig'',
      file_write_mode = ''a'', date_format = ''%Y%m%d%H''\<rparr>"

definition sample_time :: datetime where
  "sample_time =
     \<lparr>year = 2024, month = 3, day = 5, hour = 14, minute = 27, second = 0, microsecond = 0\<rparr>"

text \<open>The trees \<open>ET.fromstring\<close> builds for three documents; every other string is taken as malformed.\<close>

definition sample_fromstring :: "string \<Rightarrow> exn + element" where
  "sample_fromstring s =
     (if s = ''<msg><title>Hello</title></msg>''
      then Inr (Element ''msg'' None [Element ''title'' (Some ''Hello'') []])
      else if s = ''<msg></msg>'' then Inr (Element ''msg'' None [])
      else if s = ''<msg><title></title></msg>''
      then Inr (Element ''msg'' None [Element ''title'' None []])
      else Inl (ParseError ''syntax error: line 1, column 0''))"

definition sample_world :: world where
  "sample_world =
     \<lparr>dirs = {}, files = Map.empty, clock = (\<lambda>n. sample_time), ticks = 0,
      fromstring = sample_fromstring, faults = no_fault, trace = []\<rparr>"

text \<open>A shared article posted in a group, and a plain text message.\<close>

definition sample_msg :: Msg where
  "sample_msg =
     \<lparr>msg_id = 1, ts = 1709648820, sign = ''s'', msg_type = 49, xml = [], sender = ''alice'',
      roomid = ''room1@chatroom'', content = ''<msg><title>Hello</title></msg>'', thumb = [],
      extra = ''x'', is_at = False, is_self = False, is_group = True\<rparr>"

definition sample_text_msg :: Msg where
  "sample_text_msg = sample_msg\<lparr>msg_type := 1, content := ''hi, all''\<rparr>"

text \<open>An environment in which creating a directory is refused.\<close>

definition makedirs_refused :: "event list \<Rightarrow> event \<Rightarrow> exn option" where
  "makedirs_refused h ev =
     (case ev of EvMakedirs p \<Rightarrow> Some (OtherException ''[Errno 13] Permission denied'') | _ \<Rightarrow> None)"

section \<open>Basic facts\<close>

lemma no_fault_None: "no_fault h ev = None"
  by (simp add: no_fault_def)

lemma attempt_no_fault:
  "faults w = no_fault \<Longrightarrow> attempt ev w = (Inr (), w\<lparr>trace := trace w @ [ev]\<rparr>)"
  by (simp add: attempt_def no_fault_def)

lemma find_first: "\<not> list_ex P pre \<Longrightarrow> P e \<Longrightarrow> List.find P (pre @ e # post) = Some e"
  by (induction pre) auto

lemma find_none: "\<not> list_ex P xs \<Longrightarrow> List.find P xs = None"
  by (induction xs) auto

lemma writerow_text_nonempty: "writerow_text r \<noteq> []"
  by (simp add: writerow_text_def)

section \<open>Messages that are not eligible\<close>

text \<open>
  C4. A message whose type is not among the accepted types, or whose room has no entry
  in the room mapping, is skipped: \<open>save_message_to_csv\<close> returns normally and leaves
  the environment as it was (no directory created, no file created, opened or written,
  no operation attempted at all), and the handler answers with the acknowledgement.
\<close>

theorem ineligible_message_skipped:
  "msg_type m \<notin> accepted_types c \<or> chatroom_id_to_name c (roomid m) = None \<Longrightarrow>
   save_message_to_csv c m w = (Inr (), w) \<and> msg_cb c m w = (Body 0 success_message, w)"
  by (auto simp add: save_message_to_csv_def msg_cb_def)

theorem ineligible_message_skipped_witness:
  "msg_type (sample_msg\<lparr>msg_type := 3\<rparr>) \<notin> accepted_types sample_config \<and>
   save_message_to_csv sample_config (sample_msg\<lparr>msg_type := 3\<rparr>) sample_world = (Inr (), sample_world) \<and>
   msg_cb sample_config (sample_msg\<lparr>msg_type := 3\<rparr>) sample_world = (Body 0 success_message, sample_world)"
proof -
  have h: "msg_type (sample_msg\<lparr>msg_type := 3\<rparr>) \<notin> accepted_types sample_config"
    by (simp add: sample_config_def)
  show ?thesis
    using h ineligible_message_skipped [of "sample_msg\<lparr>msg_type := 3\<rparr>" sample_config sample_world]
    by simp
qed

section \<open>Title extraction\<close>

text \<open>
  C2, as the code has it. \<open>parse_xml_content\<close> returns the literal for a parse error
  when the parser raises \<open>ParseError\<close>; the literal for "untitled" when no element
  below the root has the tag \<open>title\<close>; and otherwise the text of the first such element
  in document order, whatever that text is: for an element without text the result is
  \<open>None\<close>, not the literal.
\<close>

theorem parse_xml_content_result:
  "(fromstring w s = Inl (ParseError d) \<longrightarrow>
      fst (parse_xml_content s w) = Inr (Some xml_parse_error)) \<and>
   (fromstring w s = Inr root \<and>
      \<not> list_ex (\<lambda>x. tag x = ''title'') (concat (map iter (children root))) \<longrightarrow>
      fst (parse_xml_content s w) = Inr (Some untitled)) \<and>
   (fromstring w s = Inr root \<and> concat (map iter (children root)) = pre @ e # post \<and>
      \<not> list_ex (\<lambda>x. tag x = ''title'') pre \<and> tag e = ''title'' \<longrightarrow>
      fst (parse_xml_content s w) = Inr (elem_text e))"
  by (simp add: parse_xml_content_def find_descendant_def find_first find_none Let_def)

theorem parse_xml_content_result_witness:
  "fromstring sample_world ''not-xml<<<'' = Inl (ParseError ''syntax error: line 1, column 0'') \<and>
   fst (parse_xml_content ''not-xml<<<'' sample_world) = Inr (Some xml_parse_error) \<and>
   fromstring sample_world ''<msg></msg>'' = Inr (Element ''msg'' None []) \<and>
   \<not> list_ex (\<lambda>x. tag x = ''title'') (concat (map iter (children (Element ''msg'' None [])))) \<and>
   fst (parse_xml_content ''<msg></msg>'' sample_world) = Inr (Some untitled) \<and>
   fromstring sample_world ''<msg><title>Hello</title></msg>'' =
     Inr (Element ''msg'' None [Element ''title'' (Some ''Hello'') []]) \<and>
   concat (map iter (children (Element ''msg'' None [Element ''title'' (Some ''Hello'') []]))) =
     [] @ Element ''title'' (Some ''Hello'') [] # [] \<and>
   \<not> list_ex (\<lambda>x. tag x = ''title'') [] \<and> tag (Element ''title'' (Some ''Hello'') []) = ''title'' \<and>
   fst (parse_xml_content ''<msg><title>Hello</title></msg>'' sample_world) = Inr (Some ''Hello'')"
  using parse_xml_content_result [where w = sample_world and s = "''not-xml<<<''"
      and d = "''syntax error: line 1, column 0''"]
    parse_xml_content_result [where w = sample_world and s = "''<msg></msg>''"
      and root = "Element ''msg'' None []"]
    parse_xml_content_result [where w = sample_world and s = "''<msg><title>Hello</title></msg>''"
      and root = "Element ''msg'' None [Element ''title'' (Some ''Hello'') []]"
      and pre = "[]" and e = "Element ''title'' (Some ''Hello'') []" and post = "[]"]
  by (simp add: sample_world_def sample_fromstring_def)

text \<open>
  C2 as stated fails: for a document whose \<open>title\<close> element has no text the result is
  \<open>None\<close>, not the literal for "untitled".
\<close>

theorem empty_title_counterexample:
  "fst (parse_xml_content ''<msg><title></title></msg>'' sample_world) = Inr None \<and>
   fst (parse_xml_content ''<msg><title></title></msg>'' sample_world) \<noteq> Inr (Some untitled)"
  by (simp add: parse_xml_content_def find_descendant_def sample_world_def sample_fromstring_def)

section \<open>The header is written once\<close>

lemma write_to_csv_ok:
  assumes "faults w = no_fault" "file_write_mode c = ''a''"
  shows "write_to_csv c f h r w =
    (Inr (), w\<lparr>trace := trace w @ [EvOpen f ''a'' (file_encoding c)] @
                (if file_text f w = [] then [EvWriterow f h] else []) @ [EvWriterow f r],
              files := (files w)(f \<mapsto> file_text f w @
                (if file_text f w = [] then writerow_text h else []) @ writerow_text r)\<rparr>)"
  using assms
  by (simp add: write_to_csv_def aiofiles_open_def bind_io_def attempt_no_fault file_tell_def
      writer_writerow_def return_io_def file_text_def)

lemma write_to_csv_run:
  assumes "faults w = no_fault" "file_write_mode c = ''a''"
  obtains w1 where "write_to_csv c f h r w = (Inr (), w1)" "faults w1 = no_fault"
    "file_text f w1 =
       file_text f w @ (if file_text f w = [] then writerow_text h else []) @ writerow_text r"
  using assms by (simp add: write_to_csv_ok file_text_def)

lemma write_all_ok:
  "faults w = no_fault \<Longrightarrow> file_write_mode c = ''a'' \<Longrightarrow> file_text f w \<noteq> [] \<Longrightarrow>
   fst (write_all c f h rows w) = Inr () \<and>
   file_text f (snd (write_all c f h rows w)) = file_text f w @ concat (map writerow_text rows)"
proof (induction rows arbitrary: w)
  case Nil
  then show ?case by (simp add: return_io_def)
next
  case (Cons r rows)
  obtain w1 where run: "write_to_csv c f h r w = (Inr (), w1)" and f1: "faults w1 = no_fault"
    and t1: "file_text f w1 = file_text f w @ writerow_text r"
    using write_to_csv_run [OF Cons.prems(1,2), of f h r] Cons.prems(3) by auto
  have ne: "file_text f w1 \<noteq> []"
    using t1 Cons.prems by simp
  have unroll: "write_all c f h (r # rows) w = write_all c f h rows w1"
    by (simp add: bind_io_def run)
  show ?case
    unfolding unroll using Cons.IH [OF f1 Cons.prems(2) ne] by (simp add: t1)
qed

text \<open>
  C7. In append mode and with no failing operation, one \<open>write_to_csv\<close> appends the
  header exactly when the position after opening is zero, and then the data row; so
  any number N of calls, N at least 1, on a file that starts absent or empty leave
  one header row followed by the N data rows in the order of the calls.
\<close>

theorem header_written_once:
  assumes "faults w = no_fault" "file_write_mode c = ''a''"
  shows "fst (write_to_csv c f h r w) = Inr () \<and>
         file_text f (snd (write_to_csv c f h r w)) =
           file_text f w @ (if file_tell f w = 0 then writerow_text h else []) @ writerow_text r \<and>
         (file_text f w = [] \<and> rows \<noteq> [] \<longrightarrow>
            fst (write_all c f h rows w) = Inr () \<and>
            file_text f (snd (write_all c f h rows w)) =
              writerow_text h @ concat (map writerow_text rows))"
proof -
  have one: "fst (write_to_csv c f h r w) = Inr () \<and>
         file_text f (snd (write_to_csv c f h r w)) =
           file_text f w @ (if file_tell f w = 0 then writerow_text h else []) @ writerow_text r"
    using assms by (simp add: write_to_csv_ok file_text_def file_tell_def)
  have many: "fst (write_all c f h rows w) = Inr () \<and>
            file_text f (snd (write_all c f h rows w)) =
              writerow_text h @ concat (map writerow_text rows)"
    if e: "file_text f w = []" and ne: "rows \<noteq> []"
  proof -
    obtain r0 rs where rows: "rows = r0 # rs" using ne by (cases rows) auto
    obtain w1 where run: "write_to_csv c f h r0 w = (Inr (), w1)" and f1: "faults w1 = no_fault"
      and t1: "file_text f w1 = writerow_text h @ writerow_text r0"
      using write_to_csv_run [OF assms, of f h r0] e by auto
    have ne1: "file_text f w1 \<noteq> []" using t1 by (simp add: writerow_text_nonempty)
    have unroll: "write_all c f h rows w = write_all c f h rs w1"
      using rows by (simp add: bind_io_def run)
    show ?thesis
      unfolding unroll using write_all_ok [OF f1 assms(2) ne1, of h rs] by (simp add: t1 rows)
  qed
  show ?thesis using one many by blast
qed

theorem header_written_once_witness:
  "faults sample_world = no_fault \<and> file_write_mode sample_config = ''a'' \<and>
   file_text ''m.csv'' sample_world = [] \<and> [[''1'', ''a''], [''2'', ''b'']] \<noteq> [] \<and>
   fst (write_all sample_config ''m.csv'' [''k'', ''v''] [[''1'', ''a''], [''2'', ''b'']]
          sample_world) = Inr () \<and>
   file_text ''m.csv'' (snd (write_all sample_config ''m.csv'' [''k'', ''v'']
          [[''1'', ''a''], [''2'', ''b'']] sample_world)) =
     ''k,v'' @ [cr, lf] @ ''1,a'' @ [cr, lf] @ ''2,b'' @ [cr, lf]"
proof -
  have h1: "faults sample_world = no_fault" by (simp add: sample_world_def)
  have h2: "file_write_mode sample_config = ''a''" by (simp add: sample_config_def)
  have h3: "file_text ''m.csv'' sample_world = []" by (simp add: sample_world_def file_text_def)
  have w: "writerow_text [''k'', ''v''] @ concat (map writerow_text [[''1'', ''a''], [''2'', ''b'']]) =
     ''k,v'' @ [cr, lf] @ ''1,a'' @ [cr, lf] @ ''2,b'' @ [cr, lf]"
    by (simp add: writerow_text_def quote_field_def special_def)
  show ?thesis
    using header_written_once [OF h1 h2, of "''m.csv''" "[''k'', ''v'']" "[''1'', ''a'']"
        "[[''1'', ''a''], [''2'', ''b'']]"] h1 h2 h3 w
    by simp
qed

section \<open>The configured date format\<close>

lemma log_and_print_date_format: "log_and_print (c\<lparr>date_format := d\<rparr>) = log_and_print c"
  by (intro ext) (simp add: log_and_print_def)

lemma write_to_csv_date_format: "write_to_csv (c\<lparr>date_format := d\<rparr>) = write_to_csv c"
  by (intro ext) (simp add: write_to_csv_def)

lemma save_body_date_format: "save_body (c\<lparr>date_format := d\<rparr>) = save_body c"
  by (intro ext) (simp add: save_body_def log_and_print_date_format write_to_csv_date_format)

lemma except_clauses_date_format: "except_clauses (c\<lparr>date_format := d\<rparr>) = except_clauses c"
  by (intro ext) (simp add: except_clauses_def log_and_print_date_format split: exn.split)

text \<open>
  C10. The configured \<open>date_format\<close> is never read: two configurations that differ
  only there make \<open>save_message_to_csv\<close> and the handler do the same to the same
  environment, so the same directory and the same file are resolved, whatever the
  message and the time.
\<close>

theorem date_format_unused:
  "save_message_to_csv (c\<lparr>date_format := d\<rparr>) m w = save_message_to_csv c m w \<and>
   msg_cb (c\<lparr>date_format := d\<rparr>) m w = msg_cb c m w"
  by (simp add: msg_cb_def save_message_to_csv_def save_body_date_format
      except_clauses_date_format split: option.split)

section \<open>The operations a run attempts\<close>

lemma emits_return: "emits P (return_io x) w"
  by (simp add: emits_def return_io_def)

lemma emits_attempt: "P ev \<Longrightarrow> emits P (attempt ev) w"
  by (simp add: emits_def attempt_def split: option.split)

lemma emits_bind:
  assumes "emits P f w" and "\<And>x w'. f w = (Inr x, w') \<Longrightarrow> emits P (g x) w'"
  shows "emits P (bind_io f g) w"
proof (cases "f w")
  case (Pair r w')
  from assms(1) Pair obtain es where es: "trace w' = trace w @ es" "list_all P es"
    by (auto simp add: emits_def)
  show ?thesis
  proof (cases r)
    case (Inl e)
    with Pair es show ?thesis by (auto simp add: emits_def bind_io_def)
  next
    case (Inr x)
    with assms(2) Pair obtain es' where "trace (snd (g x w')) = trace w' @ es'" "list_all P es'"
      by (auto simp add: emits_def)
    with Pair Inr es show ?thesis by (auto simp add: emits_def bind_io_def)
  qed
qed

lemma emits_try:
  assumes "emits P f w" and "\<And>e w'. f w = (Inl e, w') \<Longrightarrow> emits P (h e) w'"
  shows "emits P (try_except f h) w"
proof (cases "f w")
  case (Pair r w')
  from assms(1) Pair obtain es where es: "trace w' = trace w @ es" "list_all P es"
    by (auto simp add: emits_def)
  show ?thesis
  proof (cases r)
    case (Inr x)
    with Pair es show ?thesis by (auto simp add: emits_def try_except_def)
  next
    case (Inl e)
    with assms(2) Pair obtain es' where "trace (snd (h e w')) = trace w' @ es'" "list_all P es'"
      by (auto simp add: emits_def)
    with Pair Inl es show ?thesis by (auto simp add: emits_def try_except_def)
  qed
qed

lemma emits_new_events: "emits P f w \<Longrightarrow> list_all P (new_events w (snd (f w)))"
  by (auto simp add: emits_def new_events_def)

lemma emits_silent: "(\<And>w. trace (snd (f w)) = trace w) \<Longrightarrow> emits P f w"
  by (simp add: emits_def)

lemma emits_now: "P EvNow \<Longrightarrow> emits P datetime_now w"
  by (simp add: emits_def datetime_now_def)

lemma emits_exists: "P (EvExists p) \<Longrightarrow> emits P (os_path_exists p) w"
  by (simp add: emits_def os_path_exists_def)

lemma emits_makedirs: "P (EvMakedirs p) \<Longrightarrow> emits P (os_makedirs p) w"
  unfolding os_makedirs_def
  by (rule emits_bind, erule emits_attempt) (simp add: emits_def)

lemma emits_parse: "P (EvParseXml s) \<Longrightarrow> emits P (parse_xml_content s) w"
  by (simp add: emits_def parse_xml_content_def Let_def split: sum.split exn.split option.split)

lemma emits_open: "P (EvOpen p mode enc) \<Longrightarrow> emits P (aiofiles_open p mode enc) w"
  unfolding aiofiles_open_def
  by (rule emits_bind, erule emits_attempt) (simp add: emits_def)

lemma emits_writerow: "P (EvWriterow p r) \<Longrightarrow> emits P (writer_writerow p r) w"
  unfolding writer_writerow_def
  by (rule emits_bind, erule emits_attempt) (simp add: emits_def)

lemma emits_write_to_csv:
  assumes "P (EvOpen f (file_write_mode c) (file_encoding c))" "P (EvWriterow f h)" "P (EvWriterow f r)"
  shows "emits P (write_to_csv c f h r) w"
  unfolding write_to_csv_def
proof (intro emits_bind)
  show "emits P (aiofiles_open f (file_write_mode c) (file_encoding c)) w"
    by (rule emits_open) (rule assms(1))
next
  fix w1
  show "emits P (\<lambda>w. if file_tell f w = 0 then writer_writerow f h w else return_io () w) w1"
    using emits_writerow [of P f h w1] emits_return [of P "()" w1] assms(2)
    by (simp add: emits_def)
next
  fix w2
  show "emits P (writer_writerow f r) w2"
    by (rule emits_writerow) (rule assms(3))
qed

lemma emits_log_and_print:
  assumes "P (EvLog (log_level c) s)" "P EvNow" "\<And>t. P (EvPrint (log_level c) t room (msg_type m) (content m))"
  shows "emits P (log_and_print c s room m) w"
  unfolding log_and_print_def
proof (intro emits_bind)
  show "emits P (attempt (EvLog (log_level c) s)) w"
    by (rule emits_attempt) (rule assms(1))
next
  fix w1
  have "emits P (bind_io datetime_now (\<lambda>t.
              attempt (EvPrint (log_level c) t room (msg_type m) (content m)))) w1"
  proof (intro emits_bind)
    show "emits P datetime_now w1" by (rule emits_now) (rule assms(2))
  next
    fix t w2
    show "emits P (attempt (EvPrint (log_level c) t room (msg_type m) (content m))) w2"
      by (rule emits_attempt) (rule assms(3))
  qed
  then show "emits P (if contains s ''Message saved''
       then bind_io datetime_now (\<lambda>t.
              attempt (EvPrint (log_level c) t room (msg_type m) (content m)))
       else return_io ()) w1"
    by (simp add: emits_return)
qed

lemma emits_except_clauses:
  assumes "\<And>s. P (EvLog (log_level c) s)" "P EvNow" "\<And>t. P (EvPrint (log_level c) t room (msg_type m) (content m))"
  shows "emits P (except_clauses c room m e) w"
  unfolding except_clauses_def
  by (cases e) (simp_all add: emits_log_and_print assms)

lemma datetime_now_Inr: "datetime_now w = (Inr x, w') \<Longrightarrow> x = clock w (ticks w)"
  by (auto simp add: datetime_now_def)

lemma emits_save_body:
  assumes "P EvNow"
    and "P (EvExists (folder_path room (clock w (ticks w))))"
    and "P (EvMakedirs (folder_path room (clock w (ticks w))))"
    and "msg_type m = 49 \<and> is_group m \<Longrightarrow> P (EvParseXml (content m))"
    and "P (EvOpen (file_name room (clock w (ticks w))) (file_write_mode c) (file_encoding c))"
    and "P (EvWriterow (file_name room (clock w (ticks w))) (header m))"
    and "\<And>tc. (\<not> (msg_type m = 49 \<and> is_group m) \<Longrightarrow> tc = Some []) \<Longrightarrow>
           P (EvWriterow (file_name room (clock w (ticks w))) (data m tc))"
    and "\<And>s. P (EvLog (log_level c) s)"
    and "\<And>t. P (EvPrint (log_level c) t room (msg_type m) (content m))"
  shows "emits P (save_body c m room) w"
  unfolding save_body_def
proof (rule emits_bind)
  show "emits P datetime_now w" by (rule emits_now) (rule assms(1))
next
  fix t w1 assume "datetime_now w = (Inr t, w1)"
  then have t: "t = clock w (ticks w)" by (rule datetime_now_Inr)
  show "emits P (bind_io (os_path_exists (folder_path room t)) (\<lambda>ex.
     bind_io (if \<not> ex then os_makedirs (folder_path room t) else return_io ()) (\<lambda>_.
     bind_io (if msg_type m = 49 \<and> is_group m
              then parse_xml_content (content m) else return_io (Some [])) (\<lambda>title_content.
     bind_io (write_to_csv c (file_name room t) (header m)
                (data m title_content)) (\<lambda>_.
     log_and_print c ''[INFO] Message saved'' room m))))) w1"
    unfolding t
  proof (intro emits_bind)
    show "emits P (os_path_exists (folder_path room (clock w (ticks w)))) w1"
      by (rule emits_exists) (rule assms(2))
  next
    fix ex w2
    show "emits P (if \<not> ex then os_makedirs (folder_path room (clock w (ticks w))) else return_io ()) w2"
      by (simp add: emits_makedirs assms(3) emits_return)
  next
    fix w3
    show "emits P (if msg_type m = 49 \<and> is_group m then parse_xml_content (content m) else return_io (Some [])) w3"
      by (simp add: emits_parse assms(4) emits_return)
  next
    fix tc w3 w4
    assume "(if msg_type m = 49 \<and> is_group m then parse_xml_content (content m) else return_io (Some [])) w3 = (Inr tc, w4)"
    then have "\<not> (msg_type m = 49 \<and> is_group m) \<Longrightarrow> tc = Some []"
      by (auto simp add: return_io_def split: if_splits)
    then have "P (EvWriterow (file_name room (clock w (ticks w))) (data m tc))"
      by (rule assms(7))
    then show "emits P (write_to_csv c (file_name room (clock w (ticks w))) (header m) (data m tc)) w4"
      using assms(5) assms(6) by (intro emits_write_to_csv)
  next
    fix w5
    show "emits P (log_and_print c ''[INFO] Message saved'' room m) w5"
      by (rule emits_log_and_print) (rule assms(8) assms(1) assms(9))+
  qed
qed

lemma emits_save_message:
  assumes "chatroom_id_to_name c (roomid m) = Some room"
    and "P EvNow"
    and "P (EvExists (folder_path room (clock w (ticks w))))"
    and "P (EvMakedirs (folder_path room (clock w (ticks w))))"
    and "msg_type m = 49 \<and> is_group m \<Longrightarrow> P (EvParseXml (content m))"
    and "P (EvOpen (file_name room (clock w (ticks w))) (file_write_mode c) (file_encoding c))"
    and "P (EvWriterow (file_name room (clock w (ticks w))) (header m))"
    and "\<And>tc. (\<not> (msg_type m = 49 \<and> is_group m) \<Longrightarrow> tc = Some []) \<Longrightarrow>
           P (EvWriterow (file_name room (clock w (ticks w))) (data m tc))"
    and "\<And>s. P (EvLog (log_level c) s)"
    and "\<And>t. P (EvPrint (log_level c) t room (msg_type m) (content m))"
  shows "list_all P (new_events w (snd (save_message_to_csv c m w)))"
proof (cases "msg_type m \<in> accepted_types c")
  case False
  then show ?thesis by (simp add: save_message_to_csv_def new_events_def)
next
  case True
  have body: "emits P (save_body c m room) w"
  proof (rule emits_save_body)
    fix tc :: "string option"
    assume "\<not> (msg_type m = 49 \<and> is_group m) \<Longrightarrow> tc = Some []"
    then show "P (EvWriterow (file_name room (clock w (ticks w))) (data m tc))"
      by (rule assms(8))
  qed (fact assms)+
  have "emits P (try_except (save_body c m room) (except_clauses c room m)) w"
  proof (rule emits_try [OF body])
    fix e w'
    show "emits P (except_clauses c room m e) w'"
      by (rule emits_except_clauses) (rule assms)+
  qed
  then have "list_all P (new_events w (snd (try_except (save_body c m room) (except_clauses c room m) w)))"
    by (rule emits_new_events)
  then show ?thesis using True assms(1) by (simp add: save_message_to_csv_def)
qed

section \<open>A run without failure\<close>

lemma parse_xml_content_snd:
  "snd (parse_xml_content s w) = w\<lparr>trace := trace w @ [EvParseXml s]\<rparr>"
  by (simp add: parse_xml_content_def Let_def split: sum.split exn.split option.split)

lemma parse_xml_content_fst:
  "fromstring w' = fromstring w \<Longrightarrow> fst (parse_xml_content s w') = fst (parse_xml_content s w)"
  by (simp add: parse_xml_content_def Let_def split: sum.split exn.split option.split)

lemma log_saved_ok:
  assumes "faults w = no_fault"
  shows "log_and_print c ''[INFO] Message saved'' room m w =
    (Inr (), w\<lparr>ticks := Suc (ticks w),
               trace := trace w @ [EvLog (log_level c) ''[INFO] Message saved'', EvNow,
                 EvPrint (log_level c) (clock w (ticks w)) room (msg_type m) (content m)]\<rparr>)"
  using assms
  by (simp add: log_and_print_def bind_io_def attempt_no_fault datetime_now_def)

lemma save_body_run:
  assumes nf: "faults w = no_fault" and mode: "file_write_mode c = ''a''"
    and title: "(if msg_type m = 49 \<and> is_group m then fst (parse_xml_content (content m) w)
                 else Inr (Some [])) = Inr tc"
  shows "save_body c m room w =
    (Inr (), w\<lparr>ticks := Suc (Suc (ticks w)),
       dirs := insert (folder_path room (clock w (ticks w))) (dirs w),
       files := (files w)(file_name room (clock w (ticks w)) \<mapsto>
          file_text (file_name room (clock w (ticks w))) w @
          (if file_text (file_name room (clock w (ticks w))) w = [] then writerow_text (header m) else []) @
          writerow_text (data m tc)),
       trace := trace w @ [EvNow, EvExists (folder_path room (clock w (ticks w)))] @
          (if folder_path room (clock w (ticks w)) \<in> dirs w then []
           else [EvMakedirs (folder_path room (clock w (ticks w)))]) @
          (if msg_type m = 49 \<and> is_group m then [EvParseXml (content m)] else []) @
          [EvOpen (file_name room (clock w (ticks w))) ''a'' (file_encoding c)] @
          (if file_text (file_name room (clock w (ticks w))) w = []
           then [EvWriterow (file_name room (clock w (ticks w))) (header m)] else []) @
          [EvWriterow (file_name room (clock w (ticks w))) (data m tc),
           EvLog (log_level c) ''[INFO] Message saved'', EvNow,
           EvPrint (log_level c) (clock w (Suc (ticks w))) room (msg_type m) (content m)]\<rparr>)"
proof -
  define t where "t = clock w (ticks w)"
  define d where "d = folder_path room t"
  define f where "f = file_name room t"
  define w1 where "w1 = w\<lparr>ticks := Suc (ticks w), trace := trace w @ [EvNow]\<rparr>"
  define w2 where "w2 = w1\<lparr>trace := trace w1 @ [EvExists d]\<rparr>"
  define w3 where "w3 = w2\<lparr>dirs := insert d (dirs w),
     trace := trace w2 @ (if d \<in> dirs w then [] else [EvMakedirs d])\<rparr>"
  define w4 where "w4 = w3\<lparr>trace := trace w3 @
     (if msg_type m = 49 \<and> is_group m then [EvParseXml (content m)] else [])\<rparr>"
  define w5 where "w5 = w4\<lparr>trace := trace w4 @ [EvOpen f ''a'' (file_encoding c)] @
                (if file_text f w = [] then [EvWriterow f (header m)] else []) @
                [EvWriterow f (data m tc)],
              files := (files w4)(f \<mapsto> file_text f w @
                (if file_text f w = [] then writerow_text (header m) else []) @
                writerow_text (data m tc))\<rparr>"
  have e1: "datetime_now w = (Inr t, w1)"
    by (simp add: datetime_now_def t_def w1_def)
  have e2: "os_path_exists d w1 = (Inr (d \<in> dirs w), w2)"
    by (simp add: os_path_exists_def w1_def w2_def)
  have e3: "(if \<not> d \<in> dirs w then os_makedirs d else return_io ()) w2 = (Inr (), w3)"
    using nf
    by (auto simp add: os_makedirs_def bind_io_def attempt_no_fault return_io_def w1_def w2_def
        w3_def insert_absorb)
  have e4: "(if msg_type m = 49 \<and> is_group m
              then parse_xml_content (content m) else return_io (Some [])) w3 = (Inr tc, w4)"
  proof (cases "msg_type m = 49 \<and> is_group m")
    case True
    have "fst (parse_xml_content (content m) w3) = Inr tc"
      using title True parse_xml_content_fst [of w3 w "content m"]
      by (simp add: w3_def w2_def w1_def)
    moreover have "snd (parse_xml_content (content m) w3) = w4"
      using True by (simp add: parse_xml_content_snd w4_def)
    ultimately show ?thesis using True by (simp add: prod_eq_iff)
  next
    case False
    then show ?thesis using title by (auto simp add: return_io_def w4_def)
  qed
  have nf4: "faults w4 = no_fault" using nf by (simp add: w4_def w3_def w2_def w1_def)
  have ft4: "file_text f w4 = file_text f w"
    by (simp add: file_text_def w4_def w3_def w2_def w1_def)
  have e5: "write_to_csv c f (header m) (data m tc) w4 = (Inr (), w5)"
    using write_to_csv_ok [OF nf4 mode, of f "header m" "data m tc"] by (simp add: ft4 w5_def)
  have nf5: "faults w5 = no_fault" using nf4 by (simp add: w5_def)
  have e6: "log_and_print c ''[INFO] Message saved'' room m w5 =
    (Inr (), w5\<lparr>ticks := Suc (ticks w5),
               trace := trace w5 @ [EvLog (log_level c) ''[INFO] Message saved'', EvNow,
                 EvPrint (log_level c) (clock w5 (ticks w5)) room (msg_type m) (content m)]\<rparr>)"
    by (rule log_saved_ok [OF nf5])
  have "save_body c m room w =
     bind_io (os_path_exists d) (\<lambda>ex.
     bind_io (if \<not> ex then os_makedirs d else return_io ()) (\<lambda>_.
     bind_io (if msg_type m = 49 \<and> is_group m
              then parse_xml_content (content m) else return_io (Some [])) (\<lambda>title_content.
     bind_io (write_to_csv c f (header m) (data m title_content)) (\<lambda>_.
     log_and_print c ''[INFO] Message saved'' room m)))) w1"
    unfolding save_body_def d_def f_def by (subst bind_io_def) (simp only: e1 prod.case sum.case)
  also have "\<dots> =
     bind_io (if \<not> d \<in> dirs w then os_makedirs d else return_io ()) (\<lambda>_.
     bind_io (if msg_type m = 49 \<and> is_group m
              then parse_xml_content (content m) else return_io (Some [])) (\<lambda>title_content.
     bind_io (write_to_csv c f (header m) (data m title_content)) (\<lambda>_.
     log_and_print c ''[INFO] Message saved'' room m))) w2"
    by (subst bind_io_def) (simp only: e2 prod.case sum.case)
  also have "\<dots> =
     bind_io (if msg_type m = 49 \<and> is_group m
              then parse_xml_content (content m) else return_io (Some [])) (\<lambda>title_content.
     bind_io (write_to_csv c f (header m) (data m title_content)) (\<lambda>_.
     log_and_print c ''[INFO] Message saved'' room m)) w3"
    by (subst bind_io_def) (simp only: e3 prod.case sum.case)
  also have "\<dots> =
     bind_io (write_to_csv c f (header m) (data m tc)) (\<lambda>_.
     log_and_print c ''[INFO] Message saved'' room m) w4"
    by (subst bind_io_def) (simp only: e4 prod.case sum.case)
  also have "\<dots> = log_and_print c ''[INFO] Message saved'' room m w5"
    by (subst bind_io_def) (simp only: e5 prod.case sum.case)
  finally have "save_body c m room w =
    (Inr (), w5\<lparr>ticks := Suc (ticks w5),
               trace := trace w5 @ [EvLog (log_level c) ''[INFO] Message saved'', EvNow,
                 EvPrint (log_level c) (clock w5 (ticks w5)) room (msg_type m) (content m)]\<rparr>)"
    by (simp only: e6)
  then show ?thesis
    by (simp add: w5_def w4_def w3_def w2_def w1_def d_def f_def t_def)
qed

lemma emits_True_trace: "emits (\<lambda>ev. True) f w \<Longrightarrow> \<exists>es. trace (snd (f w)) = trace w @ es"
  by (auto simp add: emits_def)

lemma save_body_prefix:
  "\<exists>es. trace (snd (save_body c m room w)) =
     trace w @ [EvNow, EvExists (folder_path room (clock w (ticks w)))] @ es"
proof -
  define t where "t = clock w (ticks w)"
  define w1 where "w1 = w\<lparr>ticks := Suc (ticks w), trace := trace w @ [EvNow]\<rparr>"
  define w2 where "w2 = w1\<lparr>trace := trace w1 @ [EvExists (folder_path room t)]\<rparr>"
  let ?G = "\<lambda>ex. bind_io (if \<not> ex then os_makedirs (folder_path room t) else return_io ()) (\<lambda>_.
     bind_io (if msg_type m = 49 \<and> is_group m
              then parse_xml_content (content m) else return_io (Some [])) (\<lambda>title_content.
     bind_io (write_to_csv c (file_name room t) (header m) (data m title_content)) (\<lambda>_.
     log_and_print c ''[INFO] Message saved'' room m)))"
  have e1: "datetime_now w = (Inr t, w1)"
    by (simp add: datetime_now_def t_def w1_def)
  have e2: "os_path_exists (folder_path room t) w1 = (Inr (folder_path room t \<in> dirs w), w2)"
    by (simp add: os_path_exists_def w1_def w2_def)
  have "save_body c m room w = bind_io (os_path_exists (folder_path room t)) ?G w1"
    unfolding save_body_def by (subst bind_io_def) (simp only: e1 prod.case sum.case)
  also have "\<dots> = ?G (folder_path room t \<in> dirs w) w2"
    by (subst bind_io_def) (simp only: e2 prod.case sum.case)
  finally have body: "save_body c m room w = ?G (folder_path room t \<in> dirs w) w2" .
  have "emits (\<lambda>ev. True) (?G (folder_path room t \<in> dirs w)) w2"
    by (intro emits_bind emits_write_to_csv emits_log_and_print)
      (simp_all add: emits_makedirs emits_return emits_parse)
  then obtain es where "trace (snd (?G (folder_path room t \<in> dirs w) w2)) = trace w2 @ es"
    by (auto dest: emits_True_trace)
  then have "trace (snd (save_body c m room w)) = trace w @ [EvNow, EvExists (folder_path room t)] @ es"
    by (simp add: body w2_def w1_def)
  then show ?thesis unfolding t_def by blast
qed

lemma save_message_prefix:
  assumes "msg_type m \<in> accepted_types c" "chatroom_id_to_name c (roomid m) = Some room"
  shows "take 2 (new_events w (snd (save_message_to_csv c m w))) =
     [EvNow, EvExists (folder_path room (clock w (ticks w)))]"
proof -
  obtain es where es: "trace (snd (save_body c m room w)) =
     trace w @ [EvNow, EvExists (folder_path room (clock w (ticks w)))] @ es"
    using save_body_prefix by blast
  have "emits (\<lambda>ev. True) (except_clauses c room m e) w'" for e w'
    by (rule emits_except_clauses) simp_all
  then have h: "\<exists>es'. trace (snd (except_clauses c room m e w')) = trace w' @ es'" for e w'
    by (rule emits_True_trace)
  have "\<exists>es'. trace (snd (try_except (save_body c m room) (except_clauses c room m) w)) =
     trace (snd (save_body c m room w)) @ es'"
  proof (cases "save_body c m room w")
    case (Pair r w')
    show ?thesis
    proof (cases r)
      case (Inl e)
      with Pair h [of e w'] show ?thesis by (simp add: try_except_def)
    next
      case (Inr x)
      with Pair show ?thesis by (simp add: try_except_def)
    qed
  qed
  then obtain es' where "trace (snd (save_message_to_csv c m w)) =
     trace w @ [EvNow, EvExists (folder_path room (clock w (ticks w)))] @ es @ es'"
    using assms es by (auto simp add: save_message_to_csv_def)
  then show ?thesis by (simp add: new_events_def)
qed

lemma save_message_run:
  assumes "msg_type m \<in> accepted_types c" "chatroom_id_to_name c (roomid m) = Some room"
    and "faults w = no_fault" and "file_write_mode c = ''a''"
    and "(if msg_type m = 49 \<and> is_group m then fst (parse_xml_content (content m) w)
                 else Inr (Some [])) = Inr tc"
  shows "save_message_to_csv c m w = (Inr (), saved c m room tc w)"
  using assms(1,2) save_body_run [OF assms(3,4,5), of room]
  by (simp add: save_message_to_csv_def try_except_def saved_def)

lemma saved_writerows:
  "filter is_writerow (new_events w (saved c m room tc w)) =
     (if file_text (file_name room (clock w (ticks w))) w = []
      then [EvWriterow (file_name room (clock w (ticks w))) (header m)] else []) @
     [EvWriterow (file_name room (clock w (ticks w))) (data m tc)]"
  by (simp add: saved_def new_events_def)

lemma saved_file_text:
  "file_text (file_name room (clock w (ticks w))) (saved c m room tc w) =
     file_text (file_name room (clock w (ticks w))) w @
     (if file_text (file_name room (clock w (ticks w))) w = [] then writerow_text (header m) else []) @
     writerow_text (data m tc)"
  by (simp add: saved_def file_text_def)

text \<open>
  C5. For an eligible message that is not a type 49 message in a group, whatever fails:
  the title extraction is never called, and every row handed to the csv writer is the
  four-field header or the row of the four fields type, sender, content, extra, with the
  raw content in the content slot. In append mode and with no failing operation that
  row is written: the rows handed to the writer are the header (exactly when the file
  was absent or empty) and then this row, and the file ends with it.
\<close>

theorem plain_message_row:
  assumes "msg_type m \<in> accepted_types c" "chatroom_id_to_name c (roomid m) = Some room"
    and "\<not> (msg_type m = 49 \<and> is_group m)"
  shows "list_all (plain_row_event m) (new_events w (snd (save_message_to_csv c m w))) \<and>
    (faults w = no_fault \<and> file_write_mode c = ''a'' \<longrightarrow>
       fst (save_message_to_csv c m w) = Inr () \<and>
       filter is_writerow (new_events w (snd (save_message_to_csv c m w))) =
         (if file_text (file_name room (clock w (ticks w))) w = []
          then [EvWriterow (file_name room (clock w (ticks w))) [''type'', ''sender'', ''content'', ''extra'']]
          else []) @
         [EvWriterow (file_name room (clock w (ticks w)))
            [str_int (msg_type m), sender m, content m, extra m]] \<and>
       file_text (file_name room (clock w (ticks w))) (snd (save_message_to_csv c m w)) =
         file_text (file_name room (clock w (ticks w))) w @
         (if file_text (file_name room (clock w (ticks w))) w = []
          then writerow_text [''type'', ''sender'', ''content'', ''extra''] else []) @
         writerow_text [str_int (msg_type m), sender m, content m, extra m])"
proof -
  have h: "header m = [''type'', ''sender'', ''content'', ''extra'']"
    using assms(3) by (simp add: header_def)
  have d: "data m (Some []) = [str_int (msg_type m), sender m, content m, extra m]"
    by (simp add: data_def)
  have ev: "list_all (plain_row_event m) (new_events w (snd (save_message_to_csv c m w)))"
  proof (rule emits_save_message [OF assms(2)])
    show "msg_type m = 49 \<and> is_group m \<Longrightarrow> plain_row_event m (EvParseXml (content m))"
      using assms(3) by simp
  next
    fix tc :: "string option"
    assume "\<not> (msg_type m = 49 \<and> is_group m) \<Longrightarrow> tc = Some []"
    then have "tc = Some []" using assms(3) by simp
    then show "plain_row_event m (EvWriterow (file_name room (clock w (ticks w))) (data m tc))"
      by (simp add: d)
  qed (simp_all add: h)
  have run: "save_message_to_csv c m w = (Inr (), saved c m room (Some []) w)"
    if "faults w = no_fault" "file_write_mode c = ''a''"
    using save_message_run [OF assms(1,2) that, of "Some []"] assms(3) by simp
  show ?thesis
    using ev run by (auto simp add: saved_writerows saved_file_text h d)
qed

section \<open>Concrete runs\<close>

lemma sample_folder: "folder_path ''Team A'' sample_time = ''./Team A/20240305/''"
  by code_simp

lemma sample_file: "file_name ''Team A'' sample_time = ''./Team A/20240305/messages_2024030514.csv''"
  by code_simp

lemma str_int_1: "str_int 1 = ''1''"
  by code_simp

lemma str_int_49: "str_int 49 = ''49''"
  by code_simp

lemma sample_eligible:
  "msg_type sample_msg \<in> accepted_types sample_config"
  "msg_type sample_text_msg \<in> accepted_types sample_config"
  "chatroom_id_to_name sample_config (roomid sample_msg) = Some ''Team A''"
  "chatroom_id_to_name sample_config (roomid sample_text_msg) = Some ''Team A''"
  by (simp_all add: sample_config_def sample_msg_def sample_text_msg_def)

theorem plain_message_row_witness:
  "msg_type sample_text_msg \<in> accepted_types sample_config \<and>
   chatroom_id_to_name sample_config (roomid sample_text_msg) = Some ''Team A'' \<and>
   \<not> (msg_type sample_text_msg = 49 \<and> is_group sample_text_msg) \<and>
   faults sample_world = no_fault \<and> file_write_mode sample_config = ''a'' \<and>
   fst (save_message_to_csv sample_config sample_text_msg sample_world) = Inr () \<and>
   file_text ''./Team A/20240305/messages_2024030514.csv''
     (snd (save_message_to_csv sample_config sample_text_msg sample_world)) =
     ''type,sender,content,extra'' @ [cr, lf] @ ''1,alice,'' @ [dquote] @ ''hi, all'' @ [dquote] @ '',x'' @ [cr, lf]"
proof -
  have h3: "\<not> (msg_type sample_text_msg = 49 \<and> is_group sample_text_msg)"
    by (simp add: sample_text_msg_def)
  have h4: "faults sample_world = no_fault" by (simp add: sample_world_def)
  have h5: "file_write_mode sample_config = ''a''" by (simp add: sample_config_def)
  have t: "clock sample_world (ticks sample_world) = sample_time" by (simp add: sample_world_def)
  have e: "file_text ''./Team A/20240305/messages_2024030514.csv'' sample_world = []"
    by (simp add: file_text_def sample_world_def)
  have r: "writerow_text [''type'', ''sender'', ''content'', ''extra''] @
      writerow_text [str_int (msg_type sample_text_msg), sender sample_text_msg,
        content sample_text_msg, extra sample_text_msg] =
     ''type,sender,content,extra'' @ [cr, lf] @ ''1,alice,'' @ [dquote] @ ''hi, all'' @ [dquote] @ '',x'' @ [cr, lf]"
    by (simp add: writerow_text_def quote_field_def special_def sample_text_msg_def sample_msg_def str_int_1)
  show ?thesis
    using plain_message_row [OF sample_eligible(2) sample_eligible(4) h3, of sample_world]
      sample_eligible(2) sample_eligible(4) h3 h4 h5
    by (simp add: t sample_file e r)
qed

lemma sample_title:
  "fst (parse_xml_content (content sample_msg) sample_world) = Inr (Some ''Hello'')"
  by (simp add: parse_xml_content_def find_descendant_def sample_world_def sample_fromstring_def
      sample_msg_def)

section \<open>The format of the date and the hour\<close>

lemma digit_nth: "digit n = ''0123456789'' ! (n mod 10)"
  by (simp add: digit_def)

lemma str_nat_1: "n < 10 \<Longrightarrow> str_nat n = [''0123456789'' ! n]"
  by (subst str_nat.simps) (simp add: digit_def)

lemma str_nat_2:
  "10 \<le> n \<Longrightarrow> n < 100 \<Longrightarrow> str_nat n = [''0123456789'' ! (n div 10), ''0123456789'' ! (n mod 10)]"
  by (subst str_nat.simps) (simp add: digit_def str_nat_1)

lemma str_nat_3:
  "100 \<le> n \<Longrightarrow> n < 1000 \<Longrightarrow>
   str_nat n = [''0123456789'' ! (n div 100), ''0123456789'' ! (n div 10 mod 10),
                ''0123456789'' ! (n mod 10)]"
  by (subst str_nat.simps) (simp add: digit_def str_nat_2 div_mult2_eq [symmetric])

lemma str_nat_4:
  "1000 \<le> n \<Longrightarrow> n < 10000 \<Longrightarrow>
   str_nat n = [''0123456789'' ! (n div 1000), ''0123456789'' ! (n div 100 mod 10),
                ''0123456789'' ! (n div 10 mod 10), ''0123456789'' ! (n mod 10)]"
  by (subst str_nat.simps) (simp add: digit_def str_nat_3 div_mult2_eq [symmetric])

lemma zfill_2:
  assumes "n < 100"
  shows "zfill 2 (str_nat n) = [''0123456789'' ! (n div 10), ''0123456789'' ! (n mod 10)]"
proof (cases "n < 10")
  case True
  then show ?thesis by (simp add: zfill_def str_nat_1)
next
  case False
  then show ?thesis using assms by (simp add: zfill_def str_nat_2)
qed

lemma zfill_4:
  assumes "n < 10000"
  shows "zfill 4 (str_nat n) =
    [''0123456789'' ! (n div 1000), ''0123456789'' ! (n div 100 mod 10),
     ''0123456789'' ! (n div 10 mod 10), ''0123456789'' ! (n mod 10)]"
proof -
  consider "n < 10" | "10 \<le> n" "n < 100" | "100 \<le> n" "n < 1000" | "1000 \<le> n"
    by linarith
  then show ?thesis
  proof cases
    case 1
    then show ?thesis by (simp add: zfill_def str_nat_1 numeral_3_eq_3)
  next
    case 2
    then show ?thesis by (simp add: zfill_def str_nat_2 numeral_2_eq_2)
  next
    case 3
    then show ?thesis by (simp add: zfill_def str_nat_3)
  next
    case 4
    then show ?thesis using assms by (simp add: zfill_def str_nat_4)
  qed
qed

lemma strftime_Ymd_digits:
  assumes "year t \<le> 9999" "month t \<le> 12" "day t \<le> 31"
  shows "strftime_Ymd t =
    [''0123456789'' ! (year t div 1000), ''0123456789'' ! (year t div 100 mod 10),
     ''0123456789'' ! (year t div 10 mod 10), ''0123456789'' ! (year t mod 10),
     ''0123456789'' ! (month t div 10), ''0123456789'' ! (month t mod 10),
     ''0123456789'' ! (day t div 10), ''0123456789'' ! (day t mod 10)]"
  using assms by (simp add: strftime_Ymd_def zfill_2 zfill_4)

lemma strftime_YmdH_digits:
  assumes "year t \<le> 9999" "month t \<le> 12" "day t \<le> 31" "hour t \<le> 23"
  shows "strftime_YmdH t =
    [''0123456789'' ! (year t div 1000), ''0123456789'' ! (year t div 100 mod 10),
     ''0123456789'' ! (year t div 10 mod 10), ''0123456789'' ! (year t mod 10),
     ''0123456789'' ! (month t div 10), ''0123456789'' ! (month t mod 10),
     ''0123456789'' ! (day t div 10), ''0123456789'' ! (day t mod 10),
     ''0123456789'' ! (hour t div 10), ''0123456789'' ! (hour t mod 10)]"
  using assms by (simp add: strftime_YmdH_def strftime_Ymd_digits zfill_2)

section \<open>The directory and the file of a run\<close>

lemma bind_io_trace:
  assumes "f w = (r, w1)" and "\<And>x w'. emits (\<lambda>ev. True) (g x) w'"
  shows "\<exists>es. trace (snd (bind_io f g w)) = trace w1 @ es"
proof (cases r)
  case (Inl e)
  then show ?thesis using assms(1) by (simp add: bind_io_def)
next
  case (Inr x)
  obtain es where "trace (snd (g x w1)) = trace w1 @ es"
    using assms(2) [of x w1] by (auto simp add: emits_def)
  then show ?thesis using assms(1) Inr by (simp add: bind_io_def)
qed

lemma aiofiles_open_trace:
  "trace (snd (aiofiles_open p mode enc w)) = trace w @ [EvOpen p mode enc]"
  by (simp add: aiofiles_open_def bind_io_def attempt_def split: option.split)

lemma write_then_log_opens:
  "\<exists>es. trace (snd (bind_io (write_to_csv c f h r)
        (\<lambda>_. log_and_print c s room m) w)) =
     trace w @ EvOpen f (file_write_mode c) (file_encoding c) # es"
proof -
  obtain r1 w1 where o: "aiofiles_open f (file_write_mode c) (file_encoding c) w = (r1, w1)"
    by (cases "aiofiles_open f (file_write_mode c) (file_encoding c) w") auto
  have t1: "trace w1 = trace w @ [EvOpen f (file_write_mode c) (file_encoding c)]"
    using aiofiles_open_trace [of f "file_write_mode c" "file_encoding c" w] o by simp
  let ?rest = "\<lambda>_::unit. bind_io (\<lambda>w. if file_tell f w = 0 then writer_writerow f h w
                   else return_io () w) (\<lambda>_. writer_writerow f r)"
  have rest: "emits (\<lambda>ev. True) (?rest x) w'" for x w'
  proof (intro emits_bind)
    show "emits (\<lambda>ev. True) (\<lambda>w. if file_tell f w = 0 then writer_writerow f h w
                   else return_io () w) w'"
      using emits_writerow [of "\<lambda>ev. True" f h w'] emits_return [of "\<lambda>ev. True" "()" w']
      by (simp add: emits_def)
  next
    fix w2
    show "emits (\<lambda>ev. True) (writer_writerow f r) w2"
      by (rule emits_writerow) simp
  qed
  obtain r2 w2 where w2: "write_to_csv c f h r w = (r2, w2)"
    by (cases "write_to_csv c f h r w") auto
  have "\<exists>es. trace (snd (bind_io (aiofiles_open f (file_write_mode c) (file_encoding c)) ?rest w)) =
      trace w1 @ es"
    by (rule bind_io_trace) (rule o, rule rest)
  then obtain es1 where t2: "trace w2 = trace w1 @ es1"
    using w2 by (auto simp add: write_to_csv_def)
  have log: "emits (\<lambda>ev. True) ((\<lambda>_::unit. log_and_print c s room m) x) w'" for x w'
    by (simp add: emits_log_and_print)
  have "\<exists>es. trace (snd (bind_io (write_to_csv c f h r) (\<lambda>_. log_and_print c s room m) w)) =
      trace w2 @ es"
    by (rule bind_io_trace) (rule w2, rule log)
  then show ?thesis using t1 t2 by auto
qed

lemma save_body_reaches_write:
  assumes nf: "faults w = no_fault"
    and title: "(if msg_type m = 49 \<and> is_group m then fst (parse_xml_content (content m) w)
                 else Inr (Some [])) = Inr tc"
  shows "save_body c m room w =
     bind_io (write_to_csv c (file_name room (clock w (ticks w))) (header m) (data m tc))
       (\<lambda>_. log_and_print c ''[INFO] Message saved'' room m)
       (w\<lparr>ticks := Suc (ticks w),
          dirs := insert (folder_path room (clock w (ticks w))) (dirs w),
          trace := trace w @ [EvNow, EvExists (folder_path room (clock w (ticks w)))] @
            (if folder_path room (clock w (ticks w)) \<in> dirs w then []
             else [EvMakedirs (folder_path room (clock w (ticks w)))]) @
            (if msg_type m = 49 \<and> is_group m then [EvParseXml (content m)] else [])\<rparr>)"
proof -
  define t where "t = clock w (ticks w)"
  define d where "d = folder_path room t"
  define f where "f = file_name room t"
  define w1 where "w1 = w\<lparr>ticks := Suc (ticks w), trace := trace w @ [EvNow]\<rparr>"
  define w2 where "w2 = w1\<lparr>trace := trace w1 @ [EvExists d]\<rparr>"
  define w3 where "w3 = w2\<lparr>dirs := insert d (dirs w),
     trace := trace w2 @ (if d \<in> dirs w then [] else [EvMakedirs d])\<rparr>"
  define w4 where "w4 = w3\<lparr>trace := trace w3 @
     (if msg_type m = 49 \<and> is_group m then [EvParseXml (content m)] else [])\<rparr>"
  have e1: "datetime_now w = (Inr t, w1)"
    by (simp add: datetime_now_def t_def w1_def)
  have e2: "os_path_exists d w1 = (Inr (d \<in> dirs w), w2)"
    by (simp add: os_path_exists_def w1_def w2_def)
  have e3: "(if \<not> d \<in> dirs w then os_makedirs d else return_io ()) w2 = (Inr (), w3)"
    using nf
    by (auto simp add: os_makedirs_def bind_io_def attempt_no_fault return_io_def w1_def w2_def
        w3_def insert_absorb)
  have e4: "(if msg_type m = 49 \<and> is_group m
              then parse_xml_content (content m) else return_io (Some [])) w3 = (Inr tc, w4)"
  proof (cases "msg_type m = 49 \<and> is_group m")
    case True
    have "fst (parse_xml_content (content m) w3) = Inr tc"
      using title True parse_xml_content_fst [of w3 w "content m"]
      by (simp add: w3_def w2_def w1_def)
    moreover have "snd (parse_xml_content (content m) w3) = w4"
      using True by (simp add: parse_xml_content_snd w4_def)
    ultimately show ?thesis using True by (simp add: prod_eq_iff)
  next
    case False
    then show ?thesis using title by (auto simp add: return_io_def w4_def)
  qed
  have "save_body c m room w =
     bind_io (os_path_exists d) (\<lambda>ex.
     bind_io (if \<not> ex then os_makedirs d else return_io ()) (\<lambda>_.
     bind_io (if msg_type m = 49 \<and> is_group m
              then parse_xml_content (content m) else return_io (Some [])) (\<lambda>title_content.
     bind_io (write_to_csv c f (header m) (data m title_content)) (\<lambda>_.
     log_and_print c ''[INFO] Message saved'' room m)))) w1"
    unfolding save_body_def d_def f_def by (subst bind_io_def) (simp only: e1 prod.case sum.case)
  also have "\<dots> =
     bind_io (if \<not> d \<in> dirs w then os_makedirs d else return_io ()) (\<lambda>_.
     bind_io (if msg_type m = 49 \<and> is_group m
              then parse_xml_content (content m) else return_io (Some [])) (\<lambda>title_content.
     bind_io (write_to_csv c f (header m) (data m title_content)) (\<lambda>_.
     log_and_print c ''[INFO] Message saved'' room m))) w2"
    by (subst bind_io_def) (simp only: e2 prod.case sum.case)
  also have "\<dots> =
     bind_io (if msg_type m = 49 \<and> is_group m
              then parse_xml_content (content m) else return_io (Some [])) (\<lambda>title_content.
     bind_io (write_to_csv c f (header m) (data m title_content)) (\<lambda>_.
     log_and_print c ''[INFO] Message saved'' room m)) w3"
    by (subst bind_io_def) (simp only: e3 prod.case sum.case)
  also have "\<dots> =
     bind_io (write_to_csv c f (header m) (data m tc)) (\<lambda>_.
     log_and_print c ''[INFO] Message saved'' room m) w4"
    by (subst bind_io_def) (simp only: e4 prod.case sum.case)
  finally show ?thesis
    by (simp add: w4_def w3_def w2_def w1_def d_def f_def t_def)
qed

lemma try_except_trace:
  assumes "\<And>e w'. emits (\<lambda>ev. True) (h e) w'"
  shows "\<exists>es. trace (snd (try_except f h w)) = trace (snd (f w)) @ es"
proof (cases "f w")
  case (Pair r w')
  show ?thesis
  proof (cases r)
    case (Inl e)
    obtain es where "trace (snd (h e w')) = trace w' @ es"
      using assms [of e w'] by (auto simp add: emits_def)
    then show ?thesis using Pair Inl by (simp add: try_except_def)
  next
    case (Inr x)
    then show ?thesis using Pair by (simp add: try_except_def)
  qed
qed

lemma save_message_opens:
  assumes "msg_type m \<in> accepted_types c" "chatroom_id_to_name c (roomid m) = Some room"
    and nf: "faults w = no_fault"
    and title: "(if msg_type m = 49 \<and> is_group m then fst (parse_xml_content (content m) w)
                 else Inr (Some [])) = Inr tc"
  shows "\<exists>es. new_events w (snd (save_message_to_csv c m w)) =
     [EvNow, EvExists (folder_path room (clock w (ticks w)))] @
     (if folder_path room (clock w (ticks w)) \<in> dirs w then []
      else [EvMakedirs (folder_path room (clock w (ticks w)))]) @
     (if msg_type m = 49 \<and> is_group m then [EvParseXml (content m)] else []) @
     EvOpen (file_name room (clock w (ticks w))) (file_write_mode c) (file_encoding c) # es"
proof -
  let ?w4 = "w\<lparr>ticks := Suc (ticks w),
          dirs := insert (folder_path room (clock w (ticks w))) (dirs w),
          trace := trace w @ [EvNow, EvExists (folder_path room (clock w (ticks w)))] @
            (if folder_path room (clock w (ticks w)) \<in> dirs w then []
             else [EvMakedirs (folder_path room (clock w (ticks w)))]) @
            (if msg_type m = 49 \<and> is_group m then [EvParseXml (content m)] else [])\<rparr>"
  obtain es where es: "trace (snd (save_body c m room w)) =
     trace ?w4 @ EvOpen (file_name room (clock w (ticks w))) (file_write_mode c) (file_encoding c) # es"
    using write_then_log_opens [of c "file_name room (clock w (ticks w))" "header m" "data m tc"
        "''[INFO] Message saved''" room m ?w4]
    unfolding save_body_reaches_write [OF nf title, of c room] by blast
  have "emits (\<lambda>ev. True) (except_clauses c room m e) w'" for e w'
    by (rule emits_except_clauses) simp_all
  then obtain es' where "trace (snd (try_except (save_body c m room) (except_clauses c room m) w)) =
     trace (snd (save_body c m room w)) @ es'"
    using try_except_trace [of "except_clauses c room m" "save_body c m room" w] by blast
  then have "trace (snd (save_message_to_csv c m w)) =
     trace ?w4 @ EvOpen (file_name room (clock w (ticks w))) (file_write_mode c) (file_encoding c) #
       (es @ es')"
    using assms(1,2) es by (simp add: save_message_to_csv_def)
  then show ?thesis by (simp add: new_events_def)
qed

lemma saved_events:
  "new_events w (saved c m room tc w) =
     [EvNow, EvExists (folder_path room (clock w (ticks w)))] @
     (if folder_path room (clock w (ticks w)) \<in> dirs w then []
      else [EvMakedirs (folder_path room (clock w (ticks w)))]) @
     (if msg_type m = 49 \<and> is_group m then [EvParseXml (content m)] else []) @
     [EvOpen (file_name room (clock w (ticks w))) ''a'' (file_encoding c)] @
     (if file_text (file_name room (clock w (ticks w))) w = []
      then [EvWriterow (file_name room (clock w (ticks w))) (header m)] else []) @
     [EvWriterow (file_name room (clock w (ticks w))) (data m tc),
      EvLog (log_level c) ''[INFO] Message saved'', EvNow,
      EvPrint (log_level c) (clock w (Suc (ticks w))) room (msg_type m) (content m)]"
  by (simp add: saved_def new_events_def)

lemma saved_dirs_files:
  "folder_path room (clock w (ticks w)) \<in> dirs (saved c m room tc w)"
  "files (saved c m room tc w) (file_name room (clock w (ticks w))) \<noteq> None"
  by (simp_all add: saved_def)

text \<open>
  C6. For an eligible message and a reading \<open>t\<close> of the clock within the ranges of a
  date and time, the directory is \<open>./room/YYYYMMDD/\<close> and the file is the directory
  followed by \<open>messages_YYYYMMDDHH.csv\<close>, with the four digits of the year and the two
  digits each of month, day and hour of \<open>t\<close>, written out below digit by digit. The
  clock is read first and the directory is tested next; every operation of the run on a
  path uses this directory or this file, whatever fails and whatever the clock says
  afterwards. When no operation fails and the title step returns, the directory is
  created if absent and the file is opened under this name; in append mode the whole
  run is the one listed, with a single reading of the clock before the last path is
  used, and afterwards the directory exists and the file is there. Room \<open>Team A\<close> at
  2024-03-05 14:27:00 gives \<open>./Team A/20240305/\<close> and \<open>messages_2024030514.csv\<close> in it.
\<close>

theorem paths_from_one_reading:
  assumes "msg_type m \<in> accepted_types c" "chatroom_id_to_name c (roomid m) = Some room"
    and t: "t = clock w (ticks w)"
    and range: "year t \<le> 9999" "month t \<le> 12" "day t \<le> 31" "hour t \<le> 23"
    and ymd: "ymd =
      [''0123456789'' ! (year t div 1000), ''0123456789'' ! (year t div 100 mod 10),
       ''0123456789'' ! (year t div 10 mod 10), ''0123456789'' ! (year t mod 10),
       ''0123456789'' ! (month t div 10), ''0123456789'' ! (month t mod 10),
       ''0123456789'' ! (day t div 10), ''0123456789'' ! (day t mod 10)]"
    and hh: "hh = [''0123456789'' ! (hour t div 10), ''0123456789'' ! (hour t mod 10)]"
    and d: "d = ''./'' @ room @ ''/'' @ ymd @ ''/''"
    and f: "f = d @ ''messages_'' @ ymd @ hh @ ''.csv''"
    and evs: "evs = new_events w (snd (save_message_to_csv c m w))"
    and title: "title =
      (if msg_type m = 49 \<and> is_group m then fst (parse_xml_content (content m) w)
       else Inr (Some []))"
  shows "take 2 evs = [EvNow, EvExists d] \<and>
    list_all (path_event d f) evs \<and>
    (faults w = no_fault \<and> title = Inr tc \<longrightarrow>
       (\<exists>es. evs =
          [EvNow, EvExists d] @ (if d \<in> dirs w then [] else [EvMakedirs d]) @
          (if msg_type m = 49 \<and> is_group m then [EvParseXml (content m)] else []) @
          EvOpen f (file_write_mode c) (file_encoding c) # es)) \<and>
    (faults w = no_fault \<and> title = Inr tc \<and> file_write_mode c = ''a'' \<longrightarrow>
       evs =
          [EvNow, EvExists d] @ (if d \<in> dirs w then [] else [EvMakedirs d]) @
          (if msg_type m = 49 \<and> is_group m then [EvParseXml (content m)] else []) @
          [EvOpen f ''a'' (file_encoding c)] @
          (if file_text f w = [] then [EvWriterow f (header m)] else []) @
          [EvWriterow f (data m tc), EvLog (log_level c) ''[INFO] Message saved'', EvNow,
           EvPrint (log_level c) (clock w (Suc (ticks w))) room (msg_type m) (content m)] \<and>
       d \<in> dirs (snd (save_message_to_csv c m w)) \<and>
       files (snd (save_message_to_csv c m w)) f \<noteq> None) \<and>
    folder_path ''Team A''
      \<lparr>year = 2024, month = 3, day = 5, hour = 14, minute = 27, second = 0, microsecond = 0\<rparr> =
      ''./Team A/20240305/'' \<and>
    file_name ''Team A''
      \<lparr>year = 2024, month = 3, day = 5, hour = 14, minute = 27, second = 0, microsecond = 0\<rparr> =
      ''./Team A/20240305/'' @ ''messages_2024030514.csv''"
proof -
  have D: "d = folder_path room (clock w (ticks w))"
    using strftime_Ymd_digits [OF range(1,2,3)] by (simp add: d ymd folder_path_def t)
  have F: "f = file_name room (clock w (ticks w))"
    using strftime_Ymd_digits [OF range(1,2,3)] strftime_YmdH_digits [OF range]
    by (simp add: f d ymd hh folder_path_def file_name_def t)
  have p1: "take 2 evs = [EvNow, EvExists d]"
    unfolding evs D by (rule save_message_prefix [OF assms(1,2)])
  have p2: "list_all (path_event d f) evs"
    unfolding evs D F by (rule emits_save_message [OF assms(2)]) simp_all
  have p3: "\<exists>es. evs =
          [EvNow, EvExists d] @ (if d \<in> dirs w then [] else [EvMakedirs d]) @
          (if msg_type m = 49 \<and> is_group m then [EvParseXml (content m)] else []) @
          EvOpen f (file_write_mode c) (file_encoding c) # es"
    if "faults w = no_fault" "title = Inr tc"
    unfolding evs D F
    by (rule save_message_opens [OF assms(1,2) that(1)]) (use that(2) title in simp)
  have p4: "evs =
          [EvNow, EvExists d] @ (if d \<in> dirs w then [] else [EvMakedirs d]) @
          (if msg_type m = 49 \<and> is_group m then [EvParseXml (content m)] else []) @
          [EvOpen f ''a'' (file_encoding c)] @
          (if file_text f w = [] then [EvWriterow f (header m)] else []) @
          [EvWriterow f (data m tc), EvLog (log_level c) ''[INFO] Message saved'', EvNow,
           EvPrint (log_level c) (clock w (Suc (ticks w))) room (msg_type m) (content m)] \<and>
       d \<in> dirs (snd (save_message_to_csv c m w)) \<and>
       files (snd (save_message_to_csv c m w)) f \<noteq> None"
    if "faults w = no_fault" "title = Inr tc" "file_write_mode c = ''a''"
  proof -
    have tt: "(if msg_type m = 49 \<and> is_group m then fst (parse_xml_content (content m) w)
                 else Inr (Some [])) = Inr tc"
      using that(2) title by simp
    have run: "save_message_to_csv c m w = (Inr (), saved c m room tc w)"
      by (rule save_message_run [OF assms(1,2) that(1) that(3) tt])
    show ?thesis
      unfolding evs D F run
      by (simp add: saved_events saved_dirs_files)
  qed
  have ex: "folder_path ''Team A''
      \<lparr>year = 2024, month = 3, day = 5, hour = 14, minute = 27, second = 0, microsecond = 0\<rparr> =
      ''./Team A/20240305/'' \<and>
    file_name ''Team A''
      \<lparr>year = 2024, month = 3, day = 5, hour = 14, minute = 27, second = 0, microsecond = 0\<rparr> =
      ''./Team A/20240305/'' @ ''messages_2024030514.csv''"
    using sample_folder sample_file by (simp add: sample_time_def)
  show ?thesis using p1 p2 p3 p4 ex by blast
qed

theorem paths_from_one_reading_witness:
  "msg_type sample_msg \<in> accepted_types sample_config \<and>
   chatroom_id_to_name sample_config (roomid sample_msg) = Some ''Team A'' \<and>
   sample_time = clock sample_world (ticks sample_world) \<and>
   year sample_time \<le> 9999 \<and> month sample_time \<le> 12 \<and> day sample_time \<le> 31 \<and>
   hour sample_time \<le> 23 \<and>
   ''20240305'' =
      [''0123456789'' ! (year sample_time div 1000), ''0123456789'' ! (year sample_time div 100 mod 10),
       ''0123456789'' ! (year sample_time div 10 mod 10), ''0123456789'' ! (year sample_time mod 10),
       ''0123456789'' ! (month sample_time div 10), ''0123456789'' ! (month sample_time mod 10),
       ''0123456789'' ! (day sample_time div 10), ''0123456789'' ! (day sample_time mod 10)] \<and>
   ''14'' = [''0123456789'' ! (hour sample_time div 10), ''0123456789'' ! (hour sample_time mod 10)] \<and>
   faults sample_world = no_fault \<and> file_write_mode sample_config = ''a'' \<and>
   fst (parse_xml_content (content sample_msg) sample_world) = Inr (Some ''Hello'') \<and>
   new_events sample_world (snd (save_message_to_csv sample_config sample_msg sample_world)) =
     [EvNow, EvExists ''./Team A/20240305/'', EvMakedirs ''./Team A/20240305/'',
      EvParseXml ''<msg><title>Hello</title></msg>'',
      EvOpen ''./Team A/20240305/messages_2024030514.csv'' ''a'' ''utf-8-sig'',
      EvWriterow ''./Team A/20240305/messages_2024030514.csv''
        [''type'', ''sender'', ''title'', ''content'', ''extra''],
      EvWriterow ''./Team A/20240305/messages_2024030514.csv'' [''49'', ''alice'', ''Hello'', ''x''],
      EvLog ''INFO'' ''[INFO] Message saved'', EvNow,
      EvPrint ''INFO'' sample_time ''Team A'' 49 ''<msg><title>Hello</title></msg>''] \<and>
   ''./Team A/20240305/'' \<in>
     dirs (snd (save_message_to_csv sample_config sample_msg sample_world)) \<and>
   files (snd (save_message_to_csv sample_config sample_msg sample_world))
     ''./Team A/20240305/messages_2024030514.csv'' \<noteq> None"
proof -
  have t: "sample_time = clock sample_world (ticks sample_world)" by (simp add: sample_world_def)
  have r: "year sample_time \<le> 9999" "month sample_time \<le> 12" "day sample_time \<le> 31"
    "hour sample_time \<le> 23"
    by (simp_all add: sample_time_def)
  have ymd: "''20240305'' =
      [''0123456789'' ! (year sample_time div 1000), ''0123456789'' ! (year sample_time div 100 mod 10),
       ''0123456789'' ! (year sample_time div 10 mod 10), ''0123456789'' ! (year sample_time mod 10),
       ''0123456789'' ! (month sample_time div 10), ''0123456789'' ! (month sample_time mod 10),
       ''0123456789'' ! (day sample_time div 10), ''0123456789'' ! (day sample_time mod 10)]"
    by (simp add: sample_time_def)
  have hh: "''14'' = [''0123456789'' ! (hour sample_time div 10), ''0123456789'' ! (hour sample_time mod 10)]"
    by (simp add: sample_time_def)
  have d: "''./Team A/20240305/'' = ''./'' @ ''Team A'' @ ''/'' @ ''20240305'' @ ''/''" by simp
  have f: "''./Team A/20240305/messages_2024030514.csv'' =
     ''./Team A/20240305/'' @ ''messages_'' @ ''20240305'' @ ''14'' @ ''.csv''" by simp
  have g: "msg_type sample_msg = 49 \<and> is_group sample_msg" by (simp add: sample_msg_def)
  have title: "Inr (Some ''Hello'') =
      (if msg_type sample_msg = 49 \<and> is_group sample_msg
       then fst (parse_xml_content (content sample_msg) sample_world) else Inr (Some []))"
    using g sample_title by simp
  have h4: "faults sample_world = no_fault" by (simp add: sample_world_def)
  have h5: "file_write_mode sample_config = ''a''" by (simp add: sample_config_def)
  have e: "file_text ''./Team A/20240305/messages_2024030514.csv'' sample_world = []"
    by (simp add: file_text_def sample_world_def)
  have nd: "''./Team A/20240305/'' \<notin> dirs sample_world" by (simp add: sample_world_def)
  have hd: "header sample_msg = [''type'', ''sender'', ''title'', ''content'', ''extra'']"
    using g by (simp add: header_def)
  have dt: "data sample_msg (Some ''Hello'') = [''49'', ''alice'', ''Hello'', ''x'']"
    by (simp add: data_def sample_msg_def str_int_49)
  have misc: "file_encoding sample_config = ''utf-8-sig''" "log_level sample_config = ''INFO''"
    "content sample_msg = ''<msg><title>Hello</title></msg>''" "msg_type sample_msg = 49"
    "clock sample_world (Suc (ticks sample_world)) = sample_time"
    by (simp_all add: sample_config_def sample_msg_def sample_world_def)
  show ?thesis
    using paths_from_one_reading [OF sample_eligible(1) sample_eligible(3) t r ymd hh d f refl title,
        of "Some ''Hello''"]
      sample_eligible(1) sample_eligible(3) t r ymd hh h4 h5 sample_title
    by (simp add: e nd hd dt misc g del: append.simps)
qed

text \<open>
  C1 at a concrete message of type 49 posted in a group, whose title is extracted as
  \<open>Hello\<close>: the header handed to the csv writer has five fields, the data row has
  four (type, sender, title, extra), and the raw content is not in it.
\<close>

theorem type49_group_row_has_four_fields:
  "filter is_writerow
     (new_events sample_world (snd (save_message_to_csv sample_config sample_msg sample_world))) =
     [EvWriterow ''./Team A/20240305/messages_2024030514.csv''
        [''type'', ''sender'', ''title'', ''content'', ''extra''],
      EvWriterow ''./Team A/20240305/messages_2024030514.csv'' [''49'', ''alice'', ''Hello'', ''x'']] \<and>
   file_text ''./Team A/20240305/messages_2024030514.csv''
     (snd (save_message_to_csv sample_config sample_msg sample_world)) =
     ''type,sender,title,content,extra'' @ [cr, lf] @ ''49,alice,Hello,x'' @ [cr, lf]"
proof -
  have h4: "faults sample_world = no_fault" by (simp add: sample_world_def)
  have h5: "file_write_mode sample_config = ''a''" by (simp add: sample_config_def)
  have g: "msg_type sample_msg = 49 \<and> is_group sample_msg" by (simp add: sample_msg_def)
  have t: "clock sample_world (ticks sample_world) = sample_time" by (simp add: sample_world_def)
  have e: "file_text ''./Team A/20240305/messages_2024030514.csv'' sample_world = []"
    by (simp add: file_text_def sample_world_def)
  have run: "save_message_to_csv sample_config sample_msg sample_world =
      (Inr (), saved sample_config sample_msg ''Team A'' (Some ''Hello'') sample_world)"
    using sample_title g
    by (intro save_message_run sample_eligible h4 h5) simp
  have hd: "header sample_msg = [''type'', ''sender'', ''title'', ''content'', ''extra'']"
    using g by (simp add: header_def)
  have dt: "data sample_msg (Some ''Hello'') = [''49'', ''alice'', ''Hello'', ''x'']"
    by (simp add: data_def sample_msg_def str_int_49)
  have r: "writerow_text [''type'', ''sender'', ''title'', ''content'', ''extra''] @
      writerow_text [''49'', ''alice'', ''Hello'', ''x''] =
      ''type,sender,title,content,extra'' @ [cr, lf] @ ''49,alice,Hello,x'' @ [cr, lf]"
    by (simp add: writerow_text_def quote_field_def special_def)
  show ?thesis
    using saved_writerows [of sample_world sample_config sample_msg "''Team A''" "Some ''Hello''"]
      saved_file_text [of "''Team A''" sample_world sample_config sample_msg "Some ''Hello''"]
    by (simp add: run t sample_file e hd dt r)
qed

text \<open>
  C3 at a concrete failure: creating the directory is refused. The exception is caught
  inside \<open>save_message_to_csv\<close> and logged, nothing is written, and the handler answers
  with the acknowledgement, not with a server error.
\<close>

theorem storage_failure_acknowledged:
  "fst (msg_cb sample_config sample_msg (sample_world\<lparr>faults := makedirs_refused\<rparr>)) =
     Body 0 success_message \<and>
   trace (snd (msg_cb sample_config sample_msg (sample_world\<lparr>faults := makedirs_refused\<rparr>))) =
     [EvNow, EvExists ''./Team A/20240305/'', EvMakedirs ''./Team A/20240305/'',
      EvLog ''INFO'' ''[ERROR] An error occurred: [Errno 13] Permission denied''] \<and>
   files (snd (msg_cb sample_config sample_msg (sample_world\<lparr>faults := makedirs_refused\<rparr>)))
     ''./Team A/20240305/messages_2024030514.csv'' = None"
proof -
  define w0 where "w0 = sample_world\<lparr>faults := makedirs_refused\<rparr>"
  define w3 where "w3 = w0\<lparr>ticks := 1, trace := [EvNow, EvExists ''./Team A/20240305/'',
     EvMakedirs ''./Team A/20240305/'']\<rparr>"
  have body: "save_body sample_config sample_msg ''Team A'' w0 =
     (Inl (OtherException ''[Errno 13] Permission denied''), w3)"
    by (simp add: save_body_def bind_io_def datetime_now_def os_path_exists_def os_makedirs_def
        attempt_def makedirs_refused_def w0_def w3_def sample_world_def sample_folder)
  have c: "\<not> contains ''[ERROR] An error occurred: [Errno 13] Permission denied'' ''Message saved''"
    by simp
  have handler: "except_clauses sample_config ''Team A'' sample_msg
       (OtherException ''[Errno 13] Permission denied'') w3 =
     (Inr (), w3\<lparr>trace := trace w3 @
        [EvLog ''INFO'' ''[ERROR] An error occurred: [Errno 13] Permission denied'']\<rparr>)"
    using c
    by (simp add: except_clauses_def log_and_print_def bind_io_def attempt_def makedirs_refused_def
        return_io_def w3_def w0_def sample_config_def del: contains.simps)
  have "save_message_to_csv sample_config sample_msg w0 =
     (Inr (), w3\<lparr>trace := trace w3 @
        [EvLog ''INFO'' ''[ERROR] An error occurred: [Errno 13] Permission denied'']\<rparr>)"
    using sample_eligible(1) sample_eligible(3)
    by (simp add: save_message_to_csv_def try_except_def body handler)
  then show ?thesis
    unfolding w0_def [symmetric]
    by (simp add: msg_cb_def w3_def w0_def sample_world_def)
qed

section \<open>Writing a row and reading it back\<close>

lemma read_unquoted:
  "\<not> list_ex special s \<Longrightarrow> foldl step (InField, rec, g, rows) s = (InField, rec, g @ s, rows)"
  by (induction s arbitrary: g) (auto simp add: special_def)

lemma read_unquoted_start:
  assumes "\<not> list_ex special s" "s \<noteq> []"
  shows "foldl step (StartField, rec, [], rows) s = (InField, rec, s, rows)"
proof -
  obtain c cs where s: "s = c # cs" using assms(2) by (cases s) auto
  have "step (StartField, rec, [], rows) c = (InField, rec, [c], rows)"
    using assms(1) s by (simp add: start_field_def special_def)
  then show ?thesis
    using assms(1) s read_unquoted [of cs rec "[c]" rows] by simp
qed

lemma read_quoted_body:
  "foldl step (InQuoted, rec, g, rows) (escape_quotes s @ rest) =
   foldl step (InQuoted, rec, g @ s, rows) rest"
  by (induction s arbitrary: g) auto

lemma read_quoted:
  "foldl step (StartField, rec, [], rows) (dquote # escape_quotes s @ dquote # rest) =
   foldl step (QuoteInQuoted, rec, s, rows) rest"
  using read_quoted_body [of rec "[]" rows s "dquote # rest"]
  by (simp add: start_field_def)

lemma read_field_comma:
  "foldl step (StartField, rec, [], rows) (quote_field f @ comma # rest) =
   foldl step (StartField, rec @ [f], [], rows) rest"
proof (cases "list_ex special f")
  case True
  then show ?thesis
    using read_quoted [of rec rows f "comma # rest"] by (simp add: quote_field_def)
next
  case False
  show ?thesis
  proof (cases "f = []")
    case True
    then show ?thesis by (simp add: quote_field_def start_field_def)
  next
    case ne: False
    have "foldl step (StartField, rec, [], rows) (f @ comma # rest) =
          foldl step (InField, rec, f, rows) (comma # rest)"
      using read_unquoted_start [OF False ne, of rec rows] by simp
    then show ?thesis using False by (simp add: quote_field_def)
  qed
qed

lemma read_field_end:
  assumes "rec \<noteq> [] \<or> f \<noteq> []"
  shows "foldl step (StartField, rec, [], rows) (quote_field f @ [cr, lf]) =
         (StartField, [], [], rows @ [rec @ [f]])"
proof (cases "list_ex special f")
  case True
  then show ?thesis
    using read_quoted [of rec rows f "[cr, lf]"] by (simp add: quote_field_def)
next
  case False
  show ?thesis
  proof (cases "f = []")
    case True
    then show ?thesis using assms by (simp add: quote_field_def start_field_def)
  next
    case ne: False
    have "foldl step (StartField, rec, [], rows) (f @ [cr, lf]) =
          foldl step (InField, rec, f, rows) [cr, lf]"
      using read_unquoted_start [OF False ne, of rec rows] by simp
    then show ?thesis using False by (simp add: quote_field_def)
  qed
qed

lemma read_fields:
  "fs \<noteq> [] \<Longrightarrow> rec \<noteq> [] \<or> fs \<noteq> [[]] \<Longrightarrow>
   foldl step (StartField, rec, [], rows) (join_fields fs @ [cr, lf]) =
   (StartField, [], [], rows @ [rec @ fs])"
proof (induction fs arbitrary: rec rule: join_fields.induct)
  case 1
  then show ?case by simp
next
  case (2 f)
  then show ?case using read_field_end [of rec f rows] by auto
next
  case (3 f g fs)
  have "foldl step (StartField, rec, [], rows) (join_fields (f # g # fs) @ [cr, lf]) =
        foldl step (StartField, rec @ [f], [], rows) (join_fields (g # fs) @ [cr, lf])"
    using read_field_comma [of rec rows f "join_fields (g # fs) @ [cr, lf]"] by simp
  also have "\<dots> = (StartField, [], [], rows @ [(rec @ [f]) @ g # fs])"
    by (rule "3.IH") simp_all
  finally show ?case by simp
qed

lemma read_row:
  "foldl step (StartField, [], [], rows) (writerow_text row) = (StartField, [], [], rows @ [row])"
proof (cases "row = [] \<or> row = [[]]")
  case True
  then show ?thesis by (auto simp add: writerow_text_def start_field_def)
next
  case False
  then show ?thesis
    using read_fields [of row "[]" rows] by (simp add: writerow_text_def)
qed

lemma read_rows:
  "foldl step (StartField, [], [], acc) (concat (map writerow_text rs)) =
   (StartField, [], [], acc @ rs)"
  by (induction rs arbitrary: acc) (simp_all add: read_row)

text \<open>
  C8. Reading back what the csv writer wrote gives the fields that were written: one
  row, and any sequence of rows written one after the other, for all field values, also
  those that contain the delimiter, the quote character or line breaks.
\<close>

theorem write_then_read:
  "csv_reader (writerow_text row) = [row] \<and> csv_reader (concat (map writerow_text rows)) = rows"
  using read_row [of "[]" row] read_rows [of "[]" rows] by (simp add: csv_reader_def)

end
